theory Spec2Isabelle
  imports Complex_Main "HOL-Library.Char_ord" "HOL-Library.List_Lexorder" "HOL-Library.Multiset"
begin

section \<open>The generator: 01_generate_dataset.py\<close>

text \<open>
  The generator draws eight feature columns from the process-wide NumPy random stream,
  builds a per-record conversion probability from them, adds Gaussian noise, clips, and
  draws the label. Arrays are lists and floats are real numbers: rounding error of
  the IEEE arithmetic is not represented. The one place where the float semantics leaves
  the finite reals (a division by a batch maximum of zero, or a priority outside the
  lookup table, both giving NaN or an infinity) is written out as \<open>None\<close>.
\<close>

subsection \<open>Configuration\<close>

definition NUM_LEADS :: nat where
  "NUM_LEADS = 10000"

definition BASE_CONVERSION_RATE :: real where
  "BASE_CONVERSION_RATE = 0.10"

definition BUSINESS_TYPES :: "string list" where
  "BUSINESS_TYPES = [''Restaurant'', ''Retail'', ''Services'']"

definition PRIORITY_LEVELS :: "string list" where
  "PRIORITY_LEVELS = [''Low'', ''Medium'', ''High'']"

subsection \<open>The shared random stream\<close>

text \<open>
  \<open>np.random\<close> is a library, so its samplers are parameters of the model. A stream
  state has type \<open>'g\<close>; every sampler returns one value and the next state. A call with
  \<open>size = n\<close> is \<open>n\<close> successive single draws (\<open>draw_n\<close>), which fixes the length of
  every sampled array by construction.
\<close>

record 'g random_state =
  choice_draw :: "string list \<Rightarrow> real list \<Rightarrow> 'g \<Rightarrow> string \<times> 'g"
  uniform_draw :: "real \<Rightarrow> real \<Rightarrow> 'g \<Rightarrow> real \<times> 'g"
  randint_draw :: "int \<Rightarrow> int \<Rightarrow> 'g \<Rightarrow> int \<times> 'g"
  lognormal_draw :: "real \<Rightarrow> real \<Rightarrow> 'g \<Rightarrow> real \<times> 'g"
  normal_draw :: "real \<Rightarrow> real \<Rightarrow> 'g \<Rightarrow> real \<times> 'g"
  rand_draw :: "'g \<Rightarrow> real \<times> 'g"

fun draw_n :: "('g \<Rightarrow> 'a \<times> 'g) \<Rightarrow> nat \<Rightarrow> 'g \<Rightarrow> 'a list \<times> 'g" where
  "draw_n f 0 g = ([], g)"
| "draw_n f (Suc n) g =
     (case f g of (x, g') \<Rightarrow> (case draw_n f n g' of (xs, g'') \<Rightarrow> (x # xs, g'')))"

subsection \<open>Array helpers\<close>

text \<open>\<open>ndarray.round(d)\<close>: scale, round half to even, scale back.\<close>

definition rint :: "real \<Rightarrow> int" where
  "rint x =
     (let f = \<lfloor>x\<rfloor>; d = x - of_int f
      in if d < 1 / 2 then f else if 1 / 2 < d then f + 1 else if even f then f else f + 1)"

definition np_round :: "nat \<Rightarrow> real \<Rightarrow> real" where
  "np_round d x = of_int (rint (x * 10 ^ d)) / 10 ^ d"

text \<open>\<open>Series.max()\<close>: the largest element; an empty series has none (pandas: NaN).\<close>

fun series_max :: "real list \<Rightarrow> real option" where
  "series_max [] = None"
| "series_max (x # xs) = Some (fold max xs x)"

text \<open>
  \<open>col / col.max()\<close>. An empty column stays empty. A maximum of zero is the division
  the float arithmetic answers with NaN or an infinity: \<open>None\<close>.
\<close>

definition div_by_max :: "real list \<Rightarrow> real list option" where
  "div_by_max col =
     (case series_max col of
        None \<Rightarrow> Some []
      | Some m \<Rightarrow> if m = 0 then None else Some (map (\<lambda>v. v / m) col))"

text \<open>\<open>a += b\<close> and \<open>a -= b\<close> on arrays of one shape.\<close>

definition iadd :: "real list \<Rightarrow> real list \<Rightarrow> real list" where
  "iadd a b = map2 (+) a b"

definition isub :: "real list \<Rightarrow> real list \<Rightarrow> real list" where
  "isub a b = map2 (-) a b"

text \<open>\<open>np.clip(a, lo, hi)\<close> is \<open>minimum(maximum(a, lo), hi)\<close>, element by element.\<close>

definition np_clip :: "real list \<Rightarrow> real \<Rightarrow> real \<Rightarrow> real list" where
  "np_clip a lo hi = map (\<lambda>x. min (max x lo) hi) a"

subsection \<open>The data frame of sampled features\<close>

record frame =
  business_type :: "string list"
  rating :: "real list"
  user_ratings_total :: "int list"
  deal_value :: "real list"
  priority :: "string list"
  time_in_pipeline :: "int list"
  documents_verified_count :: "int list"
  contacts_count :: "int list"

record dataset = frame +
  converted :: "int list"

text \<open>Lines 28 to 38: the eight draws, in the order of the dictionary literal.\<close>

definition sample_features :: "'g random_state \<Rightarrow> nat \<Rightarrow> 'g \<Rightarrow> frame \<times> 'g" where
  "sample_features R n g0 =
     (case draw_n (choice_draw R BUSINESS_TYPES [0.5, 0.3, 0.2]) n g0 of (bt, g1) \<Rightarrow>
      case draw_n (uniform_draw R 3.0 5.0) n g1 of (rt, g2) \<Rightarrow>
      case draw_n (randint_draw R 10 1000) n g2 of (urt, g3) \<Rightarrow>
      case draw_n (lognormal_draw R 8.5 0.8) n g3 of (dv, g4) \<Rightarrow>
      case draw_n (choice_draw R PRIORITY_LEVELS [0.3, 0.5, 0.2]) n g4 of (pr, g5) \<Rightarrow>
      case draw_n (randint_draw R 1 90) n g5 of (tip, g6) \<Rightarrow>
      case draw_n (randint_draw R 0 7) n g6 of (dvc, g7) \<Rightarrow>
      case draw_n (randint_draw R 1 5) n g7 of (cc, g8) \<Rightarrow>
        (\<lparr>business_type = bt,
          rating = map (np_round 1) rt,
          user_ratings_total = urt,
          deal_value = map (np_round 0) dv,
          priority = pr,
          time_in_pipeline = tip,
          documents_verified_count = dvc,
          contacts_count = cc\<rparr>, g8))"

subsection \<open>The conversion probability, statement by statement\<close>

text \<open>Line 45: \<open>(df["deal_value"] / df["deal_value"].max()) * 0.20\<close>.\<close>

definition deal_value_effect :: "'a frame_scheme \<Rightarrow> real list option" where
  "deal_value_effect df = map_option (map (\<lambda>q. q * 0.20)) (div_by_max (deal_value df))"

text \<open>Line 48: \<open>(df["rating"] / 5.0) * 0.10\<close>.\<close>

definition rating_effect :: "'a frame_scheme \<Rightarrow> real list" where
  "rating_effect df = map (\<lambda>r. (r / 5.0) * 0.10) (rating df)"

text \<open>Line 49: \<open>(df["user_ratings_total"] / df["user_ratings_total"].max()) * 0.05\<close>.\<close>

definition review_count_effect :: "'a frame_scheme \<Rightarrow> real list option" where
  "review_count_effect df =
     map_option (map (\<lambda>q. q * 0.05)) (div_by_max (map real_of_int (user_ratings_total df)))"

text \<open>Line 52: \<open>(df["documents_verified_count"] / 6.0) * 0.25\<close>.\<close>

definition document_effect :: "'a frame_scheme \<Rightarrow> real list" where
  "document_effect df = map (\<lambda>c. (real_of_int c / 6.0) * 0.25) (documents_verified_count df)"

text \<open>
  Lines 55 and 56: the lookup table and \<open>df["priority"].map(priority_map).values\<close>.
  A label outside the table maps to NaN in pandas: \<open>None\<close>.
\<close>

definition priority_map :: "(string \<times> real) list" where
  "priority_map = [(''Low'', - 0.05), (''Medium'', 0.05), (''High'', 0.15)]"

fun map_values :: "(string \<times> real) list \<Rightarrow> string list \<Rightarrow> real list option" where
  "map_values m [] = Some []"
| "map_values m (k # ks) =
     (case map_of m k of
        None \<Rightarrow> None
      | Some v \<Rightarrow> map_option ((#) v) (map_values m ks))"

definition priority_effect :: "'a frame_scheme \<Rightarrow> real list option" where
  "priority_effect df = map_values priority_map (priority df)"

text \<open>Line 59: \<open>conversion_probability[df["business_type"] == "Restaurant"] += 0.05\<close>.\<close>

definition business_type_bonus :: "'a frame_scheme \<Rightarrow> real list \<Rightarrow> real list" where
  "business_type_bonus df p =
     map2 (\<lambda>b x. if b = ''Restaurant'' then x + 0.05 else x) (business_type df) p"

text \<open>Line 62: \<open>((df["time_in_pipeline"] - 45) / 45).abs() * 0.05\<close>.\<close>

definition pipeline_time_penalty :: "int \<Rightarrow> real" where
  "pipeline_time_penalty t = \<bar>real_of_int (t - 45) / 45\<bar> * 0.05"

definition pipeline_time_effect :: "'a frame_scheme \<Rightarrow> real list" where
  "pipeline_time_effect df = map pipeline_time_penalty (time_in_pipeline df)"

text \<open>
  Lines 42 to 62 as one function: the array after each statement, oldest first.
  \<open>n\<close> is the length given to \<open>np.full\<close>. The three effects that can leave the
  finite reals are computed from \<open>df\<close> alone, so whether the result is \<open>None\<close> does
  not depend on where they are tested; the additions keep the order of the source.
\<close>

definition effect_stages :: "nat \<Rightarrow> 'a frame_scheme \<Rightarrow> real list list option" where
  "effect_stages n df =
     (case deal_value_effect df of
        None \<Rightarrow> None
      | Some e1 \<Rightarrow>
         (case review_count_effect df of
            None \<Rightarrow> None
          | Some e3 \<Rightarrow>
             (case priority_effect df of
                None \<Rightarrow> None
              | Some e5 \<Rightarrow>
                 (let p0 = replicate n BASE_CONVERSION_RATE;
                      p1 = iadd p0 e1;
                      p2 = iadd p1 (rating_effect df);
                      p3 = iadd p2 e3;
                      p4 = iadd p3 (document_effect df);
                      p5 = iadd p4 e5;
                      p6 = business_type_bonus df p5;
                      p7 = isub p6 (pipeline_time_effect df)
                  in Some [p0, p1, p2, p3, p4, p5, p6, p7]))))"

definition conversion_effects :: "nat \<Rightarrow> 'a frame_scheme \<Rightarrow> real list option" where
  "conversion_effects n df = map_option last (effect_stages n df)"

text \<open>Lines 17 to 20: \<open>add_noise\<close> draws one normal value per element of \<open>data\<close>.\<close>

definition add_noise :: "'g random_state \<Rightarrow> real list \<Rightarrow> real \<Rightarrow> 'g \<Rightarrow> real list \<times> 'g" where
  "add_noise R data noise_level g =
     (case draw_n (normal_draw R 0 noise_level) (length data) g of
        (noise, g') \<Rightarrow> (map2 (+) data noise, g'))"

text \<open>
  Lines 65 and 68: noise, then the clip. When the effects left the finite reals the
  stream is still advanced by the \<open>n\<close> noise draws, as \<open>data.shape\<close> is unchanged.
\<close>

definition clipped_probability ::
  "'g random_state \<Rightarrow> nat \<Rightarrow> 'a frame_scheme \<Rightarrow> 'g \<Rightarrow> real list option \<times> 'g" where
  "clipped_probability R n df g =
     (case conversion_effects n df of
        None \<Rightarrow> (None, snd (draw_n (normal_draw R 0 0.1) n g))
      | Some p \<Rightarrow>
          (case add_noise R p 0.1 g of
             (noisy, g') \<Rightarrow> (Some (np_clip noisy 0.01 0.99), g')))"

text \<open>Line 71: \<open>(np.random.rand(NUM_LEADS) < conversion_probability).astype(int)\<close>.\<close>

definition draw_label :: "real \<Rightarrow> real \<Rightarrow> int" where
  "draw_label u p = (if u < p then 1 else 0)"

definition label_column :: "real list \<Rightarrow> real list \<Rightarrow> int list" where
  "label_column us p = map2 draw_label us p"

text \<open>
  The whole of \<open>generate_synthetic_data\<close> up to the data frame that is written out.
  The module constant \<open>NUM_LEADS\<close> is the parameter \<open>n\<close>; the stream state at entry is
  \<open>g0\<close>. The result is the data frame with its label column (\<open>None\<close> when the batch left
  the finite reals), the clipped probabilities, and the stream state at exit.
\<close>

definition generate ::
  "'g random_state \<Rightarrow> nat \<Rightarrow> 'g \<Rightarrow> (dataset option \<times> real list option) \<times> 'g" where
  "generate R n g0 =
     (case sample_features R n g0 of (df, g1) \<Rightarrow>
      case clipped_probability R n df g1 of (cp, g2) \<Rightarrow>
      case draw_n (rand_draw R) n g2 of (us, g3) \<Rightarrow>
        ((map_option (\<lambda>p. frame.extend df \<lparr>converted = label_column us p\<rparr>) cp, cp), g3))"

definition generate_synthetic_data ::
  "'g random_state \<Rightarrow> 'g \<Rightarrow> (dataset option \<times> real list option) \<times> 'g" where
  "generate_synthetic_data R g0 = generate R NUM_LEADS g0"

text \<open>
  The batch stays within the finite reals: neither batch maximum is zero and every
  priority label is in the lookup table.
\<close>

definition finite_batch :: "'a frame_scheme \<Rightarrow> bool" where
  "finite_batch df \<longleftrightarrow>
     series_max (deal_value df) \<noteq> Some 0 \<and>
     series_max (map real_of_int (user_ratings_total df)) \<noteq> Some 0 \<and>
     list_all (\<lambda>k. map_of priority_map k \<noteq> None) (priority df)"

text \<open>
  The values the stream delivers to one run, in the order they are drawn: the feature
  frame, the noise, the uniform draws of the labels.
\<close>

definition stream_draws :: "'g random_state \<Rightarrow> nat \<Rightarrow> 'g \<Rightarrow> frame \<times> real list \<times> real list" where
  "stream_draws R n g0 =
     (case sample_features R n g0 of (df, g1) \<Rightarrow>
      case draw_n (normal_draw R 0 0.1) n g1 of (noise, g2) \<Rightarrow>
      case draw_n (rand_draw R) n g2 of (us, g3) \<Rightarrow> (df, noise, us))"

text \<open>
  A small deterministic stream, used to run the model on concrete inputs. Its state is
  a counter; each sampler answers from the counter and increments it.
\<close>

definition counter_stream :: "nat random_state" where
  "counter_stream =
     \<lparr>choice_draw = (\<lambda>xs ps g. (xs ! (g mod length xs), Suc g)),
      uniform_draw = (\<lambda>lo hi g. (lo + (hi - lo) * (real (g mod 4) / 4), Suc g)),
      randint_draw = (\<lambda>lo hi g. (lo + int g mod (hi - lo), Suc g)),
      lognormal_draw = (\<lambda>mu sigma g. (1000 * real (Suc (g mod 5)), Suc g)),
      normal_draw = (\<lambda>mu sigma g. (mu + sigma * (real (g mod 3) - 1), Suc g)),
      rand_draw = (\<lambda>g. (real (g mod 10) / 10, Suc g))\<rparr>"

text \<open>Every column of the sampled frame has \<open>n\<close> entries.\<close>

definition frame_rows :: "nat \<Rightarrow> 'a frame_scheme \<Rightarrow> bool" where
  "frame_rows n df \<longleftrightarrow>
     length (business_type df) = n \<and> length (rating df) = n \<and>
     length (user_ratings_total df) = n \<and> length (deal_value df) = n \<and>
     length (priority df) = n \<and> length (time_in_pipeline df) = n \<and>
     length (documents_verified_count df) = n \<and> length (contacts_count df) = n"

text \<open>The counter stream read through integer states shifted by ten.\<close>

definition shifted_stream :: "int random_state" where
  "shifted_stream =
     \<lparr>choice_draw = (\<lambda>xs ps g. (xs ! (nat (g - 10) mod length xs), g + 1)),
      uniform_draw = (\<lambda>lo hi g. (lo + (hi - lo) * (real (nat (g - 10) mod 4) / 4), g + 1)),
      randint_draw = (\<lambda>lo hi g. (lo + (g - 10) mod (hi - lo), g + 1)),
      lognormal_draw = (\<lambda>mu sigma g. (1000 * real (Suc (nat (g - 10) mod 5)), g + 1)),
      normal_draw = (\<lambda>mu sigma g. (mu + sigma * (real (nat (g - 10) mod 3) - 1), g + 1)),
      rand_draw = (\<lambda>g. (real (nat (g - 10) mod 10) / 10, g + 1))\<rparr>"

text \<open>The frame the counter stream delivers for two leads from state 0.\<close>

definition example_frame :: frame where
  "example_frame =
     \<lparr>business_type = [''Restaurant'', ''Retail''], rating = [4, 9 / 2],
      user_ratings_total = [14, 15], deal_value = [2000, 3000],
      priority = [''High'', ''Low''], time_in_pipeline = [11, 12],
      documents_verified_count = [5, 6], contacts_count = [3, 4]\<rparr>"

section \<open>The trainer and evaluator: 02_train_evaluate_model.py\<close>

text \<open>
  pandas, scikit-learn and LightGBM are libraries. What the trainer asks of them is
  modelled from their documented behaviour, as far as the trainer's own functions
  depend on it: data frames with typed columns, the standard scaler, the one-hot
  encoder, the column transformer, the five metric functions, and the descending sort.
  Estimators, the CSV reader and the importances of the boosted trees are parameters.
\<close>

subsection \<open>Configuration\<close>




definition NUMERIC_FEATURES :: "string list" where
  "NUMERIC_FEATURES =
     [''rating'', ''user_ratings_total'', ''deal_value'', ''time_in_pipeline'',
      ''documents_verified_count'', ''contacts_count'']"

definition CATEGORICAL_FEATURES :: "string list" where
  "CATEGORICAL_FEATURES = [''business_type'', ''priority'']"

subsection \<open>Errors and data frames\<close>

text \<open>
  The exceptions that reach the caller. \<open>ReadError\<close> carries whatever the CSV reader
  raised, so that it is told apart from the trainer's own \<open>FileNotFoundError\<close>.
\<close>

datatype error =
    FileNotFoundError string
  | KeyError string
  | ValueError string
  | IndexError string
  | ReadError string

text \<open>
  A column has one dtype, as the columns that \<open>pd.read_csv\<close> produces: numbers or
  strings. A data frame is its columns in order, by name.
\<close>

datatype cell = Num real | Str string

datatype column = NumCol "real list" | StrCol "string list"

type_synonym table = "(string \<times> column) list"

fun cells :: "column \<Rightarrow> cell list" where
  "cells (NumCol xs) = map Num xs"
| "cells (StrCol ss) = map Str ss"


text \<open>\<open>df[names]\<close>: the named columns in the order asked for; the first missing one raises.\<close>

fun select_columns :: "table \<Rightarrow> string list \<Rightarrow> error + table" where
  "select_columns df [] = Inr []"
| "select_columns df (name # names) =
     (case map_of df name of
        None \<Rightarrow> Inl (KeyError name)
      | Some c \<Rightarrow>
          (case select_columns df names of
             Inl e \<Rightarrow> Inl e
           | Inr rest \<Rightarrow> Inr ((name, c) # rest)))"



subsection \<open>Lines 74 to 79: load_dataset\<close>

datatype entry = File string | Directory

type_synonym filesystem = "string \<rightharpoonup> entry"

definition MISSING_DATASET_MESSAGE :: string where
  "MISSING_DATASET_MESSAGE =
     ''Dataset not found. Please run 01_generate_dataset.py before training.''"

text \<open>
  \<open>path.exists()\<close> is \<open>fs path \<noteq> None\<close>. \<open>read_csv\<close> is the reader: what it returns or
  the message of what it raises, given what is at the path.
\<close>

definition load_dataset ::
  "(entry \<Rightarrow> string + table) \<Rightarrow> filesystem \<Rightarrow> string \<Rightarrow> error + table" where
  "load_dataset read_csv fs path =
     (case fs path of
        None \<Rightarrow> Inl (FileNotFoundError MISSING_DATASET_MESSAGE)
      | Some e \<Rightarrow>
          (case read_csv e of
             Inl msg \<Rightarrow> Inl (ReadError msg)
           | Inr df \<Rightarrow> Inr df))"

text \<open>
  A reader for concrete runs: a directory and an empty file are refused, as pandas
  refuses them; one fixed file content is parsed.
\<close>

definition example_table :: table where
  "example_table =
     [(''business_type'', StrCol [''Retail'', ''Restaurant'', ''Retail'']),
      (''rating'', NumCol [4, 5, 3]),
      (''user_ratings_total'', NumCol [10, 20, 30]),
      (''deal_value'', NumCol [100, 100, 100]),
      (''priority'', StrCol [''Low'', ''High'', ''Low'']),
      (''time_in_pipeline'', NumCol [1, 3, 5]),
      (''documents_verified_count'', NumCol [0, 6, 3]),
      (''contacts_count'', NumCol [1, 2, 3]),
      (''converted'', NumCol [0, 1, 0])]"

definition example_reader :: "entry \<Rightarrow> string + table" where
  "example_reader e =
     (case e of
        Directory \<Rightarrow> Inl ''IsADirectoryError''
      | File text \<Rightarrow>
          if text = [] then Inl ''EmptyDataError: No columns to parse from file''
          else if text = ''leads'' then Inr example_table
          else Inl ''ParserError'')"

subsection \<open>Lines 145 and 146 of main: features and target\<close>



subsection \<open>Lines 52 to 71: the preprocessing transform\<close>

text \<open>
  \<open>build_one_hot_encoder\<close> asks for \<open>handle_unknown="ignore"\<close> and a dense result in
  both of its branches; the branches differ only in the name of the keyword that
  newer and older releases of scikit-learn accept.
\<close>

datatype handle_unknown = RaiseOnUnknown | Ignore

record one_hot_encoder =
  handle_unknown :: handle_unknown
  sparse_output :: bool

definition build_one_hot_encoder :: one_hot_encoder where
  "build_one_hot_encoder = \<lparr>handle_unknown = Ignore, sparse_output = False\<rparr>"

text \<open>
  The column transformer: the scaler on the columns of \<open>"num"\<close>, the encoder on the
  columns of \<open>"cat"\<close>; all other columns are dropped.
\<close>

record column_transformer =
  num_columns :: "string list"
  cat_encoder :: one_hot_encoder
  cat_columns :: "string list"

definition build_preprocessor :: column_transformer where
  "build_preprocessor =
     \<lparr>num_columns = NUMERIC_FEATURES,
      cat_encoder = build_one_hot_encoder,
      cat_columns = CATEGORICAL_FEATURES\<rparr>"

text \<open>Apply a fallible function along a list; the first error ends it.\<close>

fun map_result :: "('a \<Rightarrow> error + 'b) \<Rightarrow> 'a list \<Rightarrow> error + 'b list" where
  "map_result f [] = Inr []"
| "map_result f (x # xs) =
     (case f x of
        Inl e \<Rightarrow> Inl e
      | Inr y \<Rightarrow> (case map_result f xs of Inl e \<Rightarrow> Inl e | Inr ys \<Rightarrow> Inr (y # ys)))"

text \<open>
  \<open>StandardScaler\<close>: the mean and the population standard deviation of the fitted
  column; a deviation of zero is replaced by one. No rows, or strings, are refused.
\<close>

record scaler_params =
  mean_fit :: real
  scale_fit :: real

definition column_mean :: "real list \<Rightarrow> real" where
  "column_mean xs = sum_list xs / real (length xs)"

definition column_variance :: "real list \<Rightarrow> real" where
  "column_variance xs =
     sum_list (map (\<lambda>x. (x - column_mean xs) ^ 2) xs) / real (length xs)"

definition standard_scaler_fit :: "column \<Rightarrow> error + scaler_params" where
  "standard_scaler_fit c =
     (case c of
        StrCol ss \<Rightarrow> Inl (ValueError ''could not convert string to float'')
      | NumCol xs \<Rightarrow>
          if xs = [] then Inl (ValueError ''Found array with 0 sample(s)'')
          else
            (let s = sqrt (column_variance xs)
             in Inr \<lparr>mean_fit = column_mean xs, scale_fit = (if s = 0 then 1 else s)\<rparr>))"

definition standard_scaler_transform :: "scaler_params \<Rightarrow> column \<Rightarrow> error + real list" where
  "standard_scaler_transform p c =
     (case c of
        StrCol ss \<Rightarrow> Inl (ValueError ''could not convert string to float'')
      | NumCol xs \<Rightarrow>
          if xs = [] then Inl (ValueError ''Found array with 0 sample(s)'')
          else Inr (map (\<lambda>x. (x - mean_fit p) / scale_fit p) xs))"

text \<open>
  \<open>OneHotEncoder\<close>: the categories are the sorted distinct values of the fitted
  column. The transform gives one indicator column per category; a value that is no
  category raises under \<open>handle_unknown="error"\<close> and is left without an indicator
  under \<open>"ignore"\<close>.
\<close>

definition one_hot_fit :: "column \<Rightarrow> error + cell list" where
  "one_hot_fit c =
     (case c of
        NumCol xs \<Rightarrow>
          if xs = [] then Inl (ValueError ''Found array with 0 sample(s)'')
          else Inr (map Num (sort (remdups xs)))
      | StrCol ss \<Rightarrow>
          if ss = [] then Inl (ValueError ''Found array with 0 sample(s)'')
          else Inr (map Str (sort (remdups ss))))"

definition one_hot_transform ::
  "one_hot_encoder \<Rightarrow> cell list \<Rightarrow> cell list \<Rightarrow> error + (cell \<times> real list) list" where
  "one_hot_transform enc cats vs =
     (if vs = [] then Inl (ValueError ''Found array with 0 sample(s)'')
      else if handle_unknown enc = RaiseOnUnknown \<and> \<not> list_all (\<lambda>v. v \<in> set cats) vs
        then Inl (ValueError ''Found unknown categories'')
      else Inr (map (\<lambda>c. (c, map (\<lambda>v. if v = c then 1 else 0) vs)) cats))"

text \<open>The fitted column transformer: its configuration and what each part learned.\<close>

record fitted_preprocessor =
  transformer :: column_transformer
  scalers :: "(string \<times> scaler_params) list"
  categories :: "(string \<times> cell list) list"

definition fit_numeric :: "table \<Rightarrow> string \<Rightarrow> error + (string \<times> scaler_params)" where
  "fit_numeric X name =
     (case map_of X name of
        None \<Rightarrow> Inl (ValueError ''A given column is not a column of the dataframe'')
      | Some c \<Rightarrow>
          (case standard_scaler_fit c of Inl e \<Rightarrow> Inl e | Inr p \<Rightarrow> Inr (name, p)))"

definition fit_categorical :: "table \<Rightarrow> string \<Rightarrow> error + (string \<times> cell list)" where
  "fit_categorical X name =
     (case map_of X name of
        None \<Rightarrow> Inl (ValueError ''A given column is not a column of the dataframe'')
      | Some c \<Rightarrow>
          (case one_hot_fit c of Inl e \<Rightarrow> Inl e | Inr cats \<Rightarrow> Inr (name, cats)))"

definition column_transformer_fit ::
  "column_transformer \<Rightarrow> table \<Rightarrow> error + fitted_preprocessor" where
  "column_transformer_fit ct X =
     (case map_result (fit_numeric X) (num_columns ct) of
        Inl e \<Rightarrow> Inl e
      | Inr sc \<Rightarrow>
          (case map_result (fit_categorical X) (cat_columns ct) of
             Inl e \<Rightarrow> Inl e
           | Inr cats \<Rightarrow> Inr \<lparr>transformer = ct, scalers = sc, categories = cats\<rparr>))"

text \<open>
  The output columns are named \<open>num__<column>\<close> and \<open>cat__<column>_<category>\<close>; the
  names are kept structured here.
\<close>

datatype feature_name = Scaled string | Indicator string cell

type_synonym matrix = "(feature_name \<times> real list) list"

definition transform_numeric :: "table \<Rightarrow> string \<times> scaler_params \<Rightarrow> error + matrix" where
  "transform_numeric X np =
     (case map_of X (fst np) of
        None \<Rightarrow> Inl (ValueError ''columns are missing'')
      | Some c \<Rightarrow>
          (case standard_scaler_transform (snd np) c of
             Inl e \<Rightarrow> Inl e
           | Inr ys \<Rightarrow> Inr [(Scaled (fst np), ys)]))"

definition transform_categorical ::
  "one_hot_encoder \<Rightarrow> table \<Rightarrow> string \<times> cell list \<Rightarrow> error + matrix" where
  "transform_categorical enc X nc =
     (case map_of X (fst nc) of
        None \<Rightarrow> Inl (ValueError ''columns are missing'')
      | Some c \<Rightarrow>
          (case one_hot_transform enc (snd nc) (cells c) of
             Inl e \<Rightarrow> Inl e
           | Inr cols \<Rightarrow> Inr (map (\<lambda>(cat, col). (Indicator (fst nc) cat, col)) cols)))"

definition column_transformer_transform :: "fitted_preprocessor \<Rightarrow> table \<Rightarrow> error + matrix" where
  "column_transformer_transform P X =
     (case map_result (transform_numeric X) (scalers P) of
        Inl e \<Rightarrow> Inl e
      | Inr ncols \<Rightarrow>
          (case map_result (transform_categorical (cat_encoder (transformer P)) X)
                  (categories P) of
             Inl e \<Rightarrow> Inl e
           | Inr ccols \<Rightarrow> Inr (concat ncols @ concat ccols)))"

definition get_feature_names_out :: "fitted_preprocessor \<Rightarrow> feature_name list" where
  "get_feature_names_out P =
     map (\<lambda>np. Scaled (fst np)) (scalers P) @
     concat (map (\<lambda>nc. map (Indicator (fst nc)) (snd nc)) (categories P))"

subsection \<open>Lines 82 to 93: evaluate_model\<close>

text \<open>
  Labels are the two classes of \<open>converted\<close>; \<open>True\<close> is the positive class 1. The
  counts of the binary confusion matrix, and the five metric functions as scikit-learn
  documents them. \<open>zero_division\<close> is the value returned when a ratio has denominator
  zero.
\<close>

definition count_pairs :: "bool \<Rightarrow> bool \<Rightarrow> bool list \<Rightarrow> bool list \<Rightarrow> nat" where
  "count_pairs t p y_true y_pred = length (filter (\<lambda>tp. tp = (t, p)) (zip y_true y_pred))"

definition accuracy_score :: "bool list \<Rightarrow> bool list \<Rightarrow> real" where
  "accuracy_score y_true y_pred =
     real (length (filter (\<lambda>tp. fst tp = snd tp) (zip y_true y_pred))) / real (length y_true)"

definition precision_score :: "bool list \<Rightarrow> bool list \<Rightarrow> real \<Rightarrow> real" where
  "precision_score y_true y_pred zero_division =
     (let tp = count_pairs True True y_true y_pred;
          fp = count_pairs False True y_true y_pred
      in if tp + fp = 0 then zero_division else real tp / real (tp + fp))"

definition recall_score :: "bool list \<Rightarrow> bool list \<Rightarrow> real \<Rightarrow> real" where
  "recall_score y_true y_pred zero_division =
     (let tp = count_pairs True True y_true y_pred;
          fn = count_pairs True False y_true y_pred
      in if tp + fn = 0 then zero_division else real tp / real (tp + fn))"

definition f1_score :: "bool list \<Rightarrow> bool list \<Rightarrow> real \<Rightarrow> real" where
  "f1_score y_true y_pred zero_division =
     (let tp = count_pairs True True y_true y_pred;
          fp = count_pairs False True y_true y_pred;
          fn = count_pairs True False y_true y_pred
      in if 2 * tp + fp + fn = 0 then zero_division
         else real (2 * tp) / real (2 * tp + fp + fn))"

text \<open>
  The area under the ROC curve is the share of (positive, negative) pairs that the
  scores order correctly, ties counting one half. \<open>roc_auc_score\<close> has no
  \<open>zero_division\<close> parameter. With a single class in \<open>y_true\<close> the area is undefined,
  and what the function then does depends on the release of scikit-learn: up to 1.5 it
  raises \<open>ValueError\<close>, later it warns and returns NaN. Both releases are admitted by
  the build of the pipeline (\<open>build_one_hot_encoder\<close> serves old and new ones), so the
  release is a parameter. An input without samples is refused by the validation of the
  arrays in every release.
\<close>

datatype score = Score real | NaN

datatype single_class_policy = RaiseValueError | ReturnNaN

definition pair_credit :: "real \<Rightarrow> real \<Rightarrow> real" where
  "pair_credit pos neg = (if neg < pos then 1 else if neg = pos then 1 / 2 else 0)"

definition roc_auc_score :: "single_class_policy \<Rightarrow> bool list \<Rightarrow> real list \<Rightarrow> error + score" where
  "roc_auc_score policy y_true y_score =
     (if y_true = [] then Inl (ValueError ''Found array with 0 sample(s)'')
      else if True \<in> set y_true \<and> False \<in> set y_true then
        (let pos = map snd (filter fst (zip y_true y_score));
             neg = map snd (filter (\<lambda>ts. \<not> fst ts) (zip y_true y_score))
         in Inr (Score (sum_list (map (\<lambda>p. sum_list (map (pair_credit p) neg)) pos) /
                        real (length pos * length neg))))
      else
        (case policy of
           RaiseValueError \<Rightarrow>
             Inl (ValueError
               ''Only one class present in y_true. ROC AUC score is not defined in that case.'')
         | ReturnNaN \<Rightarrow> Inr NaN))"

text \<open>
  A fitted pipeline, as far as evaluation uses it. \<open>predict\<close> gives one label per row.
  \<open>predict_proba\<close> gives a two-dimensional array with one column per class the
  classifier knows, held here as the list of its columns; both may raise.
\<close>

record 'x model =
  predict :: "'x \<Rightarrow> error + bool list"
  predict_proba :: "'x \<Rightarrow> error + real list list"

text \<open>The metrics dictionary; \<open>f1\<close> is the entry with key \<open>"f1_score"\<close>.\<close>

record metrics =
  accuracy :: real
  precision :: real
  recall :: real
  f1 :: real
  roc_auc :: score

text \<open>
  Line 83 is \<open>predict\<close>. Line 84 takes column 1 of \<open>predict_proba\<close>, which is out of
  bounds when the classifier knows a single class. The metric functions refuse inputs
  of different lengths. On inputs of one length only \<open>roc_auc_score\<close> can raise; when
  it does not, \<open>y_test\<close> is not empty and accuracy is a quotient by its length.
\<close>

definition evaluate_model ::
  "single_class_policy \<Rightarrow> 'x model \<Rightarrow> 'x \<Rightarrow> bool list \<Rightarrow> error + (metrics \<times> real list)" where
  "evaluate_model policy m X_test y_test =
     (case predict m X_test of
        Inl e \<Rightarrow> Inl e
      | Inr y_pred \<Rightarrow>
         (case predict_proba m X_test of
            Inl e \<Rightarrow> Inl e
          | Inr proba \<Rightarrow>
             if length proba \<le> 1
             then Inl (IndexError ''index 1 is out of bounds for axis 1 with size 1'')
             else
               (let y_prob = proba ! 1
                in if length y_pred \<noteq> length y_test \<or> length y_prob \<noteq> length y_test
                   then Inl (ValueError
                     ''Found input variables with inconsistent numbers of samples'')
                   else
                     (case roc_auc_score policy y_test y_prob of
                        Inl e \<Rightarrow> Inl e
                      | Inr auc \<Rightarrow>
                          Inr (\<lparr>accuracy = accuracy_score y_test y_pred,
                                precision = precision_score y_test y_pred 0,
                                recall = recall_score y_test y_pred 0,
                                f1 = f1_score y_test y_pred 0,
                                roc_auc = auc\<rparr>, y_prob)))))"

text \<open>
  Two constant classifiers for concrete runs: one knows both classes and never
  predicts the positive one, the other knows a single class.
\<close>

definition never_model :: "unit model" where
  "never_model =
     \<lparr>predict = (\<lambda>_. Inr [False, False, False]),
      predict_proba = (\<lambda>_. Inr [[9 / 10, 8 / 10, 7 / 10], [1 / 10, 2 / 10, 3 / 10]])\<rparr>"

definition one_class_model :: "unit model" where
  "one_class_model =
     \<lparr>predict = (\<lambda>_. Inr [False, False, False]),
      predict_proba = (\<lambda>_. Inr [[1, 1, 1]])\<rparr>"

subsection \<open>Lines 111 to 136: plot_feature_importance\<close>

text \<open>
  The fitted LightGBM pipeline, as far as the table uses it: the fitted preprocessor
  and the classifier's \<open>feature_importances_\<close>. The data frame constructor refuses
  columns of different lengths. \<open>sort_values(ascending=False)\<close> is a sort by falling
  importance; the order it gives to equal importances is not specified by pandas and
  is the stable one here. Plotting has no part in the returned table.
\<close>

record fitted_pipeline =
  preprocessor :: fitted_preprocessor
  feature_importances :: "int list"

definition sort_values_descending :: "(feature_name \<times> int) list \<Rightarrow> (feature_name \<times> int) list" where
  "sort_values_descending rows = sort_key (\<lambda>r. - snd r) rows"

definition plot_feature_importance :: "fitted_pipeline \<Rightarrow> error + (feature_name \<times> int) list" where
  "plot_feature_importance pipeline =
     (let feature_names = get_feature_names_out (preprocessor pipeline);
          importances = feature_importances pipeline
      in if length feature_names \<noteq> length importances
         then Inl (ValueError ''All arrays must be of the same length'')
         else Inr (sort_values_descending (zip feature_names importances)))"

subsection \<open>Tables for stating and running the transform\<close>

text \<open>
  A table offers the eight feature columns with their dtypes (numbers where the scaler
  is applied) and at least one row.
\<close>

definition has_feature_columns :: "table \<Rightarrow> bool" where
  "has_feature_columns X \<longleftrightarrow>
     list_all (\<lambda>name. case map_of X name of Some (NumCol xs) \<Rightarrow> xs \<noteq> [] | _ \<Rightarrow> False)
       NUMERIC_FEATURES \<and>
     list_all (\<lambda>name. case map_of X name of Some c \<Rightarrow> cells c \<noteq> [] | None \<Rightarrow> False)
       CATEGORICAL_FEATURES"

text \<open>The columns the fitted parts produce from a table, written out.\<close>

definition scaled_columns :: "table \<Rightarrow> string \<times> scaler_params \<Rightarrow> matrix" where
  "scaled_columns X np =
     (case map_of X (fst np) of
        Some (NumCol xs) \<Rightarrow>
          [(Scaled (fst np), map (\<lambda>x. (x - mean_fit (snd np)) / scale_fit (snd np)) xs)]
      | _ \<Rightarrow> [])"

definition indicator_columns :: "table \<Rightarrow> string \<times> cell list \<Rightarrow> matrix" where
  "indicator_columns X nc =
     (case map_of X (fst nc) of
        Some c \<Rightarrow>
          map (\<lambda>cat. (Indicator (fst nc) cat, map (\<lambda>v. if v = cat then 1 else 0) (cells c)))
            (snd nc)
      | None \<Rightarrow> [])"

text \<open>A training and a test table; the test row holds categories the training rows lack.\<close>

definition example_train :: table where
  "example_train =
     [(''rating'', NumCol [4, 3]),
      (''user_ratings_total'', NumCol [10, 30]),
      (''deal_value'', NumCol [100, 100]),
      (''time_in_pipeline'', NumCol [1, 5]),
      (''documents_verified_count'', NumCol [0, 3]),
      (''contacts_count'', NumCol [1, 3]),
      (''business_type'', StrCol [''Retail'', ''Retail'']),
      (''priority'', StrCol [''Low'', ''Medium''])]"

definition example_test :: table where
  "example_test =
     [(''rating'', NumCol [5]),
      (''user_ratings_total'', NumCol [20]),
      (''deal_value'', NumCol [100]),
      (''time_in_pipeline'', NumCol [3]),
      (''documents_verified_count'', NumCol [6]),
      (''contacts_count'', NumCol [2]),
      (''business_type'', StrCol [''Restaurant'']),
      (''priority'', StrCol [''High''])]"


subsection \<open>Lines 143 to 204 of main: what reaches fit and predict\<close>


















section \<open>Properties of the generator\<close>

lemma draw_n_length: "draw_n f n g = (xs, g') \<Longrightarrow> length xs = n"
proof (induction n arbitrary: g xs g')
  case 0
  then show ?case by simp
next
  case (Suc n)
  then show ?case by (auto split: prod.splits)
qed

lemma series_max_None: "series_max col = None \<longleftrightarrow> col = []"
  by (cases col) auto

lemma div_by_max_length: "div_by_max col = Some q \<Longrightarrow> length q = length col"
  by (auto simp: div_by_max_def series_max_None split: option.splits if_splits)

lemma div_by_max_nth:
  "div_by_max col = Some q \<Longrightarrow> i < length col \<Longrightarrow>
     \<exists>m. series_max col = Some m \<and> m \<noteq> 0 \<and> q ! i = col ! i / m"
  by (auto simp: div_by_max_def series_max_None split: option.splits if_splits)

lemma div_by_max_None: "div_by_max col = None \<longleftrightarrow> series_max col = Some 0"
  by (auto simp: div_by_max_def split: option.splits)

lemma map_values_length: "map_values m ks = Some vs \<Longrightarrow> length vs = length ks"
  by (induction ks arbitrary: vs) (auto split: option.splits)

lemma map_values_nth:
  "map_values m ks = Some vs \<Longrightarrow> i < length ks \<Longrightarrow> map_of m (ks ! i) = Some (vs ! i)"
proof (induction ks arbitrary: vs i)
  case Nil
  then show ?case by simp
next
  case (Cons k ks)
  then show ?case by (cases i) (auto split: option.splits)
qed

lemma map_values_None: "map_values m ks = None \<longleftrightarrow> \<not> list_all (\<lambda>k. map_of m k \<noteq> None) ks"
  by (induction ks) (auto split: option.splits)

lemma sample_features_lengths:
  assumes "sample_features R n g0 = (df, g1)"
  shows "length (business_type df) = n" "length (rating df) = n"
    "length (user_ratings_total df) = n" "length (deal_value df) = n"
    "length (priority df) = n" "length (time_in_pipeline df) = n"
    "length (documents_verified_count df) = n" "length (contacts_count df) = n"
  using assms by (auto simp: sample_features_def split: prod.splits dest: draw_n_length)

lemma sample_features_rows: "sample_features R n g0 = (df, g1) \<Longrightarrow> frame_rows n df"
  unfolding frame_rows_def using sample_features_lengths [of R n g0 df g1] by simp

lemma iadd_length: "length (iadd a b) = min (length a) (length b)"
  by (simp add: iadd_def)

lemma iadd_nth: "i < length a \<Longrightarrow> i < length b \<Longrightarrow> iadd a b ! i = a ! i + b ! i"
  by (simp add: iadd_def)

lemma isub_length: "length (isub a b) = min (length a) (length b)"
  by (simp add: isub_def)

lemma isub_nth: "i < length a \<Longrightarrow> i < length b \<Longrightarrow> isub a b ! i = a ! i - b ! i"
  by (simp add: isub_def)

lemma deal_value_effect_nth:
  "deal_value_effect df = Some e \<Longrightarrow> i < length (deal_value df) \<Longrightarrow>
     length e = length (deal_value df) \<and>
     (\<exists>m. series_max (deal_value df) = Some m \<and> m \<noteq> 0 \<and> e ! i = (deal_value df ! i / m) * 0.20)"
  unfolding deal_value_effect_def
  using div_by_max_length div_by_max_nth by fastforce

lemma review_count_effect_nth:
  "review_count_effect df = Some e \<Longrightarrow> i < length (user_ratings_total df) \<Longrightarrow>
     length e = length (user_ratings_total df) \<and>
     (\<exists>m. series_max (map real_of_int (user_ratings_total df)) = Some m \<and> m \<noteq> 0 \<and>
          e ! i = (real_of_int (user_ratings_total df ! i) / m) * 0.05)"
proof -
  assume a: "review_count_effect df = Some e" and i: "i < length (user_ratings_total df)"
  from a obtain q where q: "div_by_max (map real_of_int (user_ratings_total df)) = Some q"
    and e: "e = map (\<lambda>q. q * 0.05) q"
    by (auto simp: review_count_effect_def)
  from div_by_max_length [OF q] have l: "length q = length (user_ratings_total df)" by simp
  from div_by_max_nth [OF q, of i] i obtain m where
    "series_max (map real_of_int (user_ratings_total df)) = Some m" "m \<noteq> 0"
    "q ! i = real_of_int (user_ratings_total df ! i) / m" by auto
  with e l i show ?thesis by simp
qed

lemma priority_effect_nth:
  "priority_effect df = Some e \<Longrightarrow> i < length (priority df) \<Longrightarrow>
     length e = length (priority df) \<and> map_of priority_map (priority df ! i) = Some (e ! i)"
  unfolding priority_effect_def using map_values_length map_values_nth by blast

lemma effect_stages_Some:
  assumes "effect_stages n df = Some st"
  obtains e1 e3 e5 where
    "deal_value_effect df = Some e1" "review_count_effect df = Some e3"
    "priority_effect df = Some e5"
    "st = [replicate n BASE_CONVERSION_RATE,
           iadd (replicate n BASE_CONVERSION_RATE) e1,
           iadd (iadd (replicate n BASE_CONVERSION_RATE) e1) (rating_effect df),
           iadd (iadd (iadd (replicate n BASE_CONVERSION_RATE) e1) (rating_effect df)) e3,
           iadd (iadd (iadd (iadd (replicate n BASE_CONVERSION_RATE) e1) (rating_effect df)) e3)
             (document_effect df),
           iadd (iadd (iadd (iadd (iadd (replicate n BASE_CONVERSION_RATE) e1) (rating_effect df)) e3)
             (document_effect df)) e5,
           business_type_bonus df (iadd (iadd (iadd (iadd (iadd (replicate n BASE_CONVERSION_RATE) e1)
             (rating_effect df)) e3) (document_effect df)) e5),
           isub (business_type_bonus df (iadd (iadd (iadd (iadd (iadd (replicate n BASE_CONVERSION_RATE) e1)
             (rating_effect df)) e3) (document_effect df)) e5)) (pipeline_time_effect df)]"
  using assms by (auto simp: effect_stages_def Let_def split: option.splits)

lemma deal_value_effect_None: "deal_value_effect df = None \<longleftrightarrow> series_max (deal_value df) = Some 0"
  by (simp add: deal_value_effect_def div_by_max_None)

lemma review_count_effect_None:
  "review_count_effect df = None \<longleftrightarrow>
     series_max (map real_of_int (user_ratings_total df)) = Some 0"
  by (simp add: review_count_effect_def div_by_max_None)

lemma priority_effect_None:
  "priority_effect df = None \<longleftrightarrow>
     \<not> list_all (\<lambda>k. map_of priority_map k \<noteq> None) (priority df)"
  by (simp add: priority_effect_def map_values_None)

lemma effect_stages_None: "effect_stages n df = None \<longleftrightarrow> \<not> finite_batch df"
proof -
  have "effect_stages n df = None \<longleftrightarrow>
          deal_value_effect df = None \<or> review_count_effect df = None \<or>
          priority_effect df = None"
    by (auto simp: effect_stages_def Let_def split: option.splits)
  then show ?thesis
    unfolding deal_value_effect_None review_count_effect_None priority_effect_None
      finite_batch_def by blast
qed

lemma conversion_effects_length:
  assumes "frame_rows n df" "conversion_effects n df = Some p"
  shows "length p = n"
proof -
  from assms(2) obtain st where st: "effect_stages n df = Some st" and p: "p = last st"
    by (auto simp: conversion_effects_def)
  from st obtain e1 e3 e5 where e: "deal_value_effect df = Some e1"
    "review_count_effect df = Some e3" "priority_effect df = Some e5"
    and steq: "last st = isub (business_type_bonus df (iadd (iadd (iadd (iadd (iadd (replicate n BASE_CONVERSION_RATE) e1)
             (rating_effect df)) e3) (document_effect df)) e5)) (pipeline_time_effect df)"
    by (rule effect_stages_Some) simp
  have l1: "length e1 = n"
    using e(1) assms(1) by (auto simp: deal_value_effect_def frame_rows_def dest: div_by_max_length)
  have l3: "length e3 = n"
    using e(2) assms(1) by (auto simp: review_count_effect_def frame_rows_def dest: div_by_max_length)
  have l5: "length e5 = n"
    using e(3) assms(1) by (auto simp: priority_effect_def frame_rows_def dest: map_values_length)
  show ?thesis
    using assms(1) l1 l3 l5 unfolding p steq
    by (simp add: isub_length iadd_length business_type_bonus_def rating_effect_def
        document_effect_def pipeline_time_effect_def frame_rows_def)
qed

lemma clipped_probability_Some:
  assumes "frame_rows n df" "clipped_probability R n df g = (Some cp, g')"
  obtains p noise where "conversion_effects n df = Some p" "length p = n"
    "draw_n (normal_draw R 0 0.1) n g = (noise, g')" "length noise = n"
    "cp = np_clip (map2 (+) p noise) 0.01 0.99"
proof -
  from assms(2) obtain p where p: "conversion_effects n df = Some p"
    by (auto simp: clipped_probability_def split: option.splits prod.splits)
  have lp: "length p = n" by (rule conversion_effects_length [OF assms(1) p])
  obtain noise g2 where d: "draw_n (normal_draw R 0 0.1) n g = (noise, g2)"
    by (cases "draw_n (normal_draw R 0 0.1) n g")
  from assms(2) p lp d have "cp = np_clip (map2 (+) p noise) 0.01 0.99" "g' = g2"
    by (auto simp: clipped_probability_def add_noise_def)
  with p lp d draw_n_length [OF d] that show ?thesis by blast
qed

lemma clipped_probability_None:
  "fst (clipped_probability R n df g) = None \<longleftrightarrow> \<not> finite_batch df"
proof -
  have "fst (clipped_probability R n df g) = None \<longleftrightarrow> effect_stages n df = None"
    by (auto simp: clipped_probability_def conversion_effects_def
        split: option.splits prod.splits)
  then show ?thesis by (simp add: effect_stages_None)
qed

lemma generate_unfold:
  assumes "sample_features R n g0 = (df, g1)"
    and "clipped_probability R n df g1 = (cp, g2)"
    and "draw_n (rand_draw R) n g2 = (us, g3)"
  shows "generate R n g0 =
     ((map_option (\<lambda>p. frame.extend df \<lparr>converted = label_column us p\<rparr>) cp, cp), g3)"
  using assms by (simp add: generate_def)

lemma draw_n_numeral:
  "draw_n f (numeral k) g =
     (case f g of (x, g') \<Rightarrow> (case draw_n f (pred_numeral k) g' of (xs, g'') \<Rightarrow> (x # xs, g'')))"
  by (simp add: numeral_eq_Suc)

lemma draw_n_1: "draw_n f 1 g = (case f g of (x, g') \<Rightarrow> ([x], g'))"
  by (simp split: prod.splits)

lemma sample_features_example: "sample_features counter_stream 2 0 = (example_frame, 16)"
  by (simp add: sample_features_def draw_n_numeral draw_n_1 counter_stream_def
      BUSINESS_TYPES_def PRIORITY_LEVELS_def np_round_def rint_def Let_def example_frame_def)

lemma finite_batch_example: "finite_batch example_frame"
  by (simp add: finite_batch_def example_frame_def priority_map_def del: not_None_eq)

lemma effect_stages_example:
  "effect_stages 2 example_frame =
     Some [[1/10, 1/10], [7/30, 3/10], [47/150, 39/100], [9/25, 11/25], [341/600, 69/100],
           [431/600, 16/25], [461/600, 16/25], [263/360, 181/300]]"
  by (simp add: effect_stages_def deal_value_effect_def review_count_effect_def
      priority_effect_def rating_effect_def document_effect_def business_type_bonus_def
      pipeline_time_effect_def pipeline_time_penalty_def div_by_max_def iadd_def isub_def
      priority_map_def BASE_CONVERSION_RATE_def example_frame_def Let_def eval_nat_numeral)

lemma clipped_probability_example:
  "clipped_probability counter_stream 2 example_frame 16 = (Some [263/360, 211/300], 18)"
  by (simp add: clipped_probability_def conversion_effects_def effect_stages_example
      add_noise_def np_clip_def draw_n_numeral draw_n_1 counter_stream_def)

lemma rand_example: "draw_n (rand_draw counter_stream) 2 18 = ([4/5, 9/10], 20)"
  by (simp add: draw_n_numeral draw_n_1 counter_stream_def)

lemma np_clip_nth:
  "i < length a \<Longrightarrow> np_clip a lo hi ! i = min (max (a ! i) lo) hi"
  by (simp add: np_clip_def)

lemma clip_bounds:
  fixes x lo hi :: real
  assumes "lo \<le> hi"
  shows "lo \<le> min (max x lo) hi \<and> min (max x lo) hi \<le> hi"
  using assms by (simp add: min_def max_def)

lemma np_clip_range:
  assumes "lo \<le> hi" "i < length a"
  shows "lo \<le> np_clip a lo hi ! i \<and> np_clip a lo hi ! i \<le> hi"
  using assms clip_bounds [of lo hi "a ! i"] by (simp add: np_clip_nth)

lemma generate_probability:
  assumes "sample_features R n g0 = (df, g1)"
  shows "snd (fst (generate R n g0)) = fst (clipped_probability R n df g1)"
  using assms by (simp add: generate_def split: prod.splits)

text \<open>
  Claim C1. In every run of the generator the clipped conversion probability exists for
  each of the \<open>n\<close> records and lies in the closed interval from 0.01 to 0.99. It is
  the value the label draw compares against. A batch within the finite reals always
  has these probabilities; the batch that divides by a zero maximum carries NaN in
  the program and is \<open>None\<close> here.
\<close>

theorem clipped_probability_range:
  "(finite_batch (fst (sample_features R n g0)) \<longrightarrow> snd (fst (generate R n g0)) \<noteq> None) \<and>
   (\<forall>cp. snd (fst (generate R n g0)) = Some cp \<longrightarrow>
      length cp = n \<and> (\<forall>i<n. 0.01 \<le> cp ! i \<and> cp ! i \<le> 0.99))"
proof -
  obtain df g1 where sf: "sample_features R n g0 = (df, g1)"
    by (cases "sample_features R n g0")
  have rows: "frame_rows n df" by (rule sample_features_rows [OF sf])
  have eq: "snd (fst (generate R n g0)) = fst (clipped_probability R n df g1)"
    by (rule generate_probability [OF sf])
  have a: "finite_batch df \<longrightarrow> fst (clipped_probability R n df g1) \<noteq> None"
    by (simp add: clipped_probability_None)
  have b: "length cp = n \<and> (\<forall>i<n. 0.01 \<le> cp ! i \<and> cp ! i \<le> 0.99)"
    if "fst (clipped_probability R n df g1) = Some cp" for cp
  proof -
    from that obtain g2 where c: "clipped_probability R n df g1 = (Some cp, g2)"
      by (cases "clipped_probability R n df g1") simp
    from rows c obtain p noise where lp: "length p = n" and ln: "length noise = n"
      and cp: "cp = np_clip (map2 (+) p noise) 0.01 0.99"
      by (rule clipped_probability_Some)
    have len: "length (map2 (+) p noise) = n" using lp ln by simp
    have "(0.01::real) \<le> 0.99" by simp
    from np_clip_range [OF this] len
    have "\<forall>i<n. 0.01 \<le> np_clip (map2 (+) p noise) 0.01 0.99 ! i \<and>
                 np_clip (map2 (+) p noise) 0.01 0.99 ! i \<le> 0.99" by blast
    moreover have "length (np_clip (map2 (+) p noise) 0.01 0.99) = n"
      using len by (simp add: np_clip_def)
    ultimately show ?thesis unfolding cp by blast
  qed
  from a b show ?thesis unfolding eq using sf by simp
qed

theorem clipped_probability_range_witness:
  "finite_batch (fst (sample_features counter_stream 2 0)) \<and>
   (\<exists>cp. snd (fst (generate counter_stream 2 0)) = Some cp \<and> length cp = 2 \<and>
      0.01 \<le> cp ! 0 \<and> cp ! 0 \<le> 0.99 \<and> 0.01 \<le> cp ! 1 \<and> cp ! 1 \<le> 0.99)"
proof -
  have fb: "finite_batch (fst (sample_features counter_stream 2 0))"
    by (simp add: sample_features_example finite_batch_example)
  note r = clipped_probability_range [of counter_stream 2 0]
  from r fb obtain cp where cp: "snd (fst (generate counter_stream 2 0)) = Some cp"
    by auto
  with r have "length cp = 2" and "\<forall>i<2. 0.01 \<le> cp ! i \<and> cp ! i \<le> 0.99"
    by blast+
  then have "length cp = 2 \<and> 0.01 \<le> cp ! 0 \<and> cp ! 0 \<le> 0.99 \<and> 0.01 \<le> cp ! 1 \<and> cp ! 1 \<le> 0.99"
    by auto
  with fb cp show ?thesis by blast
qed

lemma business_type_bonus_nth:
  "i < length (business_type df) \<Longrightarrow> i < length p \<Longrightarrow>
     business_type_bonus df p ! i =
       p ! i + (if business_type df ! i = ''Restaurant'' then 0.05 else 0)"
  by (simp add: business_type_bonus_def)

lemma business_type_bonus_length:
  "length (business_type_bonus df p) = min (length (business_type df)) (length p)"
  by (simp add: business_type_bonus_def)

text \<open>
  Claim C2. The arrays \<open>p0\<close> to \<open>p7\<close> are the conversion probability after each
  statement of the source. For every record, \<open>p0\<close> is the base rate and each later
  array adds to the one before it exactly one effect, in this order: deal value,
  rating, review count, document verification, priority, business-type bonus, and the
  subtracted pipeline-time penalty. The noise drawn after the features is added to
  \<open>p7\<close>, and the clip is applied to that sum and to nothing earlier.
\<close>

theorem conversion_probability_construction:
  assumes "sample_features R n g0 = (df, g1)"
    and "clipped_probability R n df g1 = (Some cp, g2)"
  shows "\<exists>p0 p1 p2 p3 p4 p5 p6 p7 noise.
      effect_stages n df = Some [p0, p1, p2, p3, p4, p5, p6, p7] \<and>
      draw_n (normal_draw R 0 0.1) n g1 = (noise, g2) \<and>
      (\<forall>i<n. \<exists>dmax rmax v.
         series_max (deal_value df) = Some dmax \<and> dmax \<noteq> 0 \<and>
         series_max (map real_of_int (user_ratings_total df)) = Some rmax \<and> rmax \<noteq> 0 \<and>
         map_of priority_map (priority df ! i) = Some v \<and>
         p0 ! i = BASE_CONVERSION_RATE \<and>
         p1 ! i = p0 ! i + (deal_value df ! i / dmax) * 0.20 \<and>
         p2 ! i = p1 ! i + (rating df ! i / 5.0) * 0.10 \<and>
         p3 ! i = p2 ! i + (real_of_int (user_ratings_total df ! i) / rmax) * 0.05 \<and>
         p4 ! i = p3 ! i + (real_of_int (documents_verified_count df ! i) / 6.0) * 0.25 \<and>
         p5 ! i = p4 ! i + v \<and>
         p6 ! i = p5 ! i + (if business_type df ! i = ''Restaurant'' then 0.05 else 0) \<and>
         p7 ! i = p6 ! i - \<bar>real_of_int (time_in_pipeline df ! i - 45) / 45\<bar> * 0.05 \<and>
         cp ! i = min (max (p7 ! i + noise ! i) 0.01) 0.99)"
proof -
  have rows: "frame_rows n df" by (rule sample_features_rows [OF assms(1)])
  from rows assms(2) obtain p noise where p: "conversion_effects n df = Some p"
    and lp: "length p = n" and d: "draw_n (normal_draw R 0 0.1) n g1 = (noise, g2)"
    and ln: "length noise = n" and cp: "cp = np_clip (map2 (+) p noise) 0.01 0.99"
    by (rule clipped_probability_Some)
  from p obtain st where st: "effect_stages n df = Some st" and pl: "p = last st"
    by (auto simp: conversion_effects_def)
  from st obtain e1 e3 e5 where e1: "deal_value_effect df = Some e1"
    and e3: "review_count_effect df = Some e3" and e5: "priority_effect df = Some e5"
    and steq: "st = [replicate n BASE_CONVERSION_RATE,
           iadd (replicate n BASE_CONVERSION_RATE) e1,
           iadd (iadd (replicate n BASE_CONVERSION_RATE) e1) (rating_effect df),
           iadd (iadd (iadd (replicate n BASE_CONVERSION_RATE) e1) (rating_effect df)) e3,
           iadd (iadd (iadd (iadd (replicate n BASE_CONVERSION_RATE) e1) (rating_effect df)) e3)
             (document_effect df),
           iadd (iadd (iadd (iadd (iadd (replicate n BASE_CONVERSION_RATE) e1) (rating_effect df)) e3)
             (document_effect df)) e5,
           business_type_bonus df (iadd (iadd (iadd (iadd (iadd (replicate n BASE_CONVERSION_RATE) e1)
             (rating_effect df)) e3) (document_effect df)) e5),
           isub (business_type_bonus df (iadd (iadd (iadd (iadd (iadd (replicate n BASE_CONVERSION_RATE) e1)
             (rating_effect df)) e3) (document_effect df)) e5)) (pipeline_time_effect df)]"
    by (rule effect_stages_Some)
  define p0 where "p0 = replicate n BASE_CONVERSION_RATE"
  define p1 where "p1 = iadd p0 e1"
  define p2 where "p2 = iadd p1 (rating_effect df)"
  define p3 where "p3 = iadd p2 e3"
  define p4 where "p4 = iadd p3 (document_effect df)"
  define p5 where "p5 = iadd p4 e5"
  define p6 where "p6 = business_type_bonus df p5"
  define p7 where "p7 = isub p6 (pipeline_time_effect df)"
  have st': "st = [p0, p1, p2, p3, p4, p5, p6, p7]"
    unfolding steq p0_def p1_def p2_def p3_def p4_def p5_def p6_def p7_def ..
  have p7: "p = p7" unfolding pl st' by simp
  have r: "length (business_type df) = n" "length (rating df) = n"
    "length (user_ratings_total df) = n" "length (deal_value df) = n"
    "length (priority df) = n" "length (time_in_pipeline df) = n"
    "length (documents_verified_count df) = n"
    using rows by (simp_all add: frame_rows_def)
  have le1: "length e1 = n"
    using e1 r by (auto simp: deal_value_effect_def dest: div_by_max_length)
  have le3: "length e3 = n"
    using e3 r by (auto simp: review_count_effect_def dest: div_by_max_length)
  have le5: "length e5 = n"
    using e5 r by (auto simp: priority_effect_def dest: map_values_length)
  have l0: "length p0 = n" by (simp add: p0_def)
  have l1: "length p1 = n" by (simp add: p1_def iadd_length l0 le1)
  have l2: "length p2 = n" by (simp add: p2_def iadd_length l1 rating_effect_def r)
  have l3: "length p3 = n" by (simp add: p3_def iadd_length l2 le3)
  have l4: "length p4 = n" by (simp add: p4_def iadd_length l3 document_effect_def r)
  have l5: "length p5 = n" by (simp add: p5_def iadd_length l4 le5)
  have l6: "length p6 = n" by (simp add: p6_def business_type_bonus_length l5 r)
  have l7: "length p7 = n" by (simp add: p7_def isub_length l6 pipeline_time_effect_def r)
  have step: "\<exists>dmax rmax v.
         series_max (deal_value df) = Some dmax \<and> dmax \<noteq> 0 \<and>
         series_max (map real_of_int (user_ratings_total df)) = Some rmax \<and> rmax \<noteq> 0 \<and>
         map_of priority_map (priority df ! i) = Some v \<and>
         p0 ! i = BASE_CONVERSION_RATE \<and>
         p1 ! i = p0 ! i + (deal_value df ! i / dmax) * 0.20 \<and>
         p2 ! i = p1 ! i + (rating df ! i / 5.0) * 0.10 \<and>
         p3 ! i = p2 ! i + (real_of_int (user_ratings_total df ! i) / rmax) * 0.05 \<and>
         p4 ! i = p3 ! i + (real_of_int (documents_verified_count df ! i) / 6.0) * 0.25 \<and>
         p5 ! i = p4 ! i + v \<and>
         p6 ! i = p5 ! i + (if business_type df ! i = ''Restaurant'' then 0.05 else 0) \<and>
         p7 ! i = p6 ! i - \<bar>real_of_int (time_in_pipeline df ! i - 45) / 45\<bar> * 0.05 \<and>
         cp ! i = min (max (p7 ! i + noise ! i) 0.01) 0.99" if i: "i < n" for i
  proof -
    from deal_value_effect_nth [OF e1, of i] i r obtain dmax where
      dm: "series_max (deal_value df) = Some dmax" "dmax \<noteq> 0"
      "e1 ! i = (deal_value df ! i / dmax) * 0.20" by auto
    from review_count_effect_nth [OF e3, of i] i r obtain rmax where
      rm: "series_max (map real_of_int (user_ratings_total df)) = Some rmax" "rmax \<noteq> 0"
      "e3 ! i = (real_of_int (user_ratings_total df ! i) / rmax) * 0.05" by auto
    from priority_effect_nth [OF e5, of i] i r have
      pv: "map_of priority_map (priority df ! i) = Some (e5 ! i)" by simp
    have a0: "p0 ! i = BASE_CONVERSION_RATE" using i by (simp add: p0_def)
    have a1: "p1 ! i = p0 ! i + (deal_value df ! i / dmax) * 0.20"
      unfolding p1_def using i l0 le1 dm(3) by (simp add: iadd_nth)
    have a2: "p2 ! i = p1 ! i + (rating df ! i / 5.0) * 0.10"
      unfolding p2_def using i l1 r by (simp add: iadd_nth rating_effect_def)
    have a3: "p3 ! i = p2 ! i + (real_of_int (user_ratings_total df ! i) / rmax) * 0.05"
      unfolding p3_def using i l2 le3 rm(3) by (simp add: iadd_nth)
    have a4: "p4 ! i = p3 ! i + (real_of_int (documents_verified_count df ! i) / 6.0) * 0.25"
      unfolding p4_def using i l3 r by (simp add: iadd_nth document_effect_def)
    have a5: "p5 ! i = p4 ! i + e5 ! i"
      unfolding p5_def using i l4 le5 by (simp add: iadd_nth)
    have a6: "p6 ! i = p5 ! i + (if business_type df ! i = ''Restaurant'' then 0.05 else 0)"
      unfolding p6_def using i l5 r by (simp add: business_type_bonus_nth)
    have a7: "p7 ! i = p6 ! i - \<bar>real_of_int (time_in_pipeline df ! i - 45) / 45\<bar> * 0.05"
      unfolding p7_def using i l6 r
      by (simp add: isub_nth pipeline_time_effect_def pipeline_time_penalty_def)
    have a8: "cp ! i = min (max (p7 ! i + noise ! i) 0.01) 0.99"
      unfolding cp p7 using i l7 ln by (simp add: np_clip_nth)
    from dm(1,2) rm(1,2) pv a0 a1 a2 a3 a4 a5 a6 a7 a8 show ?thesis by blast
  qed
  from st st' d step show ?thesis by blast
qed

theorem conversion_probability_construction_witness:
  "sample_features counter_stream 2 0 = (example_frame, 16) \<and>
   clipped_probability counter_stream 2 example_frame 16 = (Some [263 / 360, 211 / 300], 18) \<and>
   (\<exists>p0 p1 p2 p3 p4 p5 p6 p7 noise.
      effect_stages 2 example_frame = Some [p0, p1, p2, p3, p4, p5, p6, p7] \<and>
      draw_n (normal_draw counter_stream 0 0.1) 2 16 = (noise, 18) \<and>
      p0 ! 0 = BASE_CONVERSION_RATE \<and> p0 ! 1 = BASE_CONVERSION_RATE \<and>
      263 / 360 = min (max (p7 ! 0 + noise ! 0) 0.01) 0.99 \<and>
      211 / 300 = min (max (p7 ! 1 + noise ! 1) 0.01) 0.99)"
proof -
  note h = sample_features_example clipped_probability_example
  from conversion_probability_construction [OF h]
  obtain p0 p1 p2 p3 p4 p5 p6 p7 noise where
    a: "effect_stages 2 example_frame = Some [p0, p1, p2, p3, p4, p5, p6, p7]"
      "draw_n (normal_draw counter_stream 0 0.1) 2 16 = (noise, 18)"
    and b: "\<forall>i<2. p0 ! i = BASE_CONVERSION_RATE \<and>
      [263 / 360, 211 / 300] ! i = min (max (p7 ! i + noise ! i) 0.01) 0.99"
    by blast
  from b [rule_format, of 0] b [rule_format, of 1]
  have "p0 ! 0 = BASE_CONVERSION_RATE \<and> p0 ! 1 = BASE_CONVERSION_RATE \<and>
      263 / 360 = min (max (p7 ! 0 + noise ! 0) 0.01) 0.99 \<and>
      211 / 300 = min (max (p7 ! 1 + noise ! 1) 0.01) 0.99"
    by simp
  with a h show ?thesis by blast
qed

text \<open>
  Claim C3. The label of every record is 1 when the record's uniform draw, taken from
  the stream after the noise, is strictly below its clipped probability, and 0
  otherwise; so every label of the data frame is 0 or 1.
\<close>

theorem converted_label_bernoulli:
  assumes "sample_features R n g0 = (df, g1)"
    and "clipped_probability R n df g1 = (Some cp, g2)"
    and "draw_n (rand_draw R) n g2 = (us, g3)"
  shows "\<exists>ds. generate R n g0 = ((Some ds, Some cp), g3) \<and> frame.truncate ds = df \<and>
      length (converted ds) = n \<and>
      (\<forall>i<n. converted ds ! i = (if us ! i < cp ! i then 1 else 0)) \<and>
      (\<forall>y\<in>set (converted ds). y = 0 \<or> y = 1)"
proof -
  define ds where "ds = frame.extend df \<lparr>converted = label_column us cp\<rparr>"
  have g: "generate R n g0 = ((Some ds, Some cp), g3)"
    using generate_unfold [OF assms] by (simp add: ds_def)
  have t: "frame.truncate ds = df"
    by (simp add: ds_def frame.truncate_def frame.extend_def)
  have c: "converted ds = label_column us cp"
    by (simp add: ds_def frame.extend_def)
  have rows: "frame_rows n df" by (rule sample_features_rows [OF assms(1)])
  from rows assms(2) obtain p noise where "length p = n" "length noise = n"
    "cp = np_clip (map2 (+) p noise) 0.01 0.99"
    by (rule clipped_probability_Some)
  then have lcp: "length cp = n" by (simp add: np_clip_def)
  have lus: "length us = n" by (rule draw_n_length [OF assms(3)])
  have l: "length (converted ds) = n" unfolding c by (simp add: label_column_def lcp lus)
  have v: "\<forall>i<n. converted ds ! i = (if us ! i < cp ! i then 1 else 0)"
    unfolding c by (simp add: label_column_def draw_label_def lcp lus)
  have b: "\<forall>y\<in>set (converted ds). y = 0 \<or> y = 1"
    unfolding c by (auto simp: label_column_def draw_label_def)
  from g t l v b show ?thesis by blast
qed

theorem converted_label_bernoulli_witness:
  "sample_features counter_stream 2 0 = (example_frame, 16) \<and>
   clipped_probability counter_stream 2 example_frame 16 = (Some [263 / 360, 211 / 300], 18) \<and>
   draw_n (rand_draw counter_stream) 2 18 = ([4 / 5, 9 / 10], 20) \<and>
   (\<exists>ds. generate counter_stream 2 0 = ((Some ds, Some [263 / 360, 211 / 300]), 20) \<and>
      converted ds = [0, 0])"
proof -
  note h = sample_features_example clipped_probability_example rand_example
  from converted_label_bernoulli [OF h]
  obtain ds where g: "generate counter_stream 2 0 = ((Some ds, Some [263 / 360, 211 / 300]), 20)"
    and l: "length (converted ds) = 2"
    and v: "\<forall>i<2. converted ds ! i = (if [4 / 5, 9 / 10 :: real] ! i < [263 / 360, 211 / 300] ! i then 1 else 0)"
    by blast
  from v have "converted ds ! 0 = 0" "converted ds ! 1 = 0" by simp_all
  with l have "converted ds = [0, 0]"
    by (cases "converted ds"; cases "tl (converted ds)") auto
  with g h show ?thesis by blast
qed

text \<open>
  Claim C8. The pipeline-time term is the weight 0.05 times the absolute deviation of
  \<open>time_in_pipeline\<close> from 45, divided by 45. It is the same at equal distances on
  both sides of 45, falls towards 45 and rises after it, so it is neither increasing
  nor decreasing; and for every record it is subtracted: the array after the
  statement is the array before it minus the term.
\<close>

theorem pipeline_time_penalty_shape:
  "pipeline_time_penalty t = 0.05 * (\<bar>real_of_int t - 45\<bar> / 45) \<and>
   pipeline_time_penalty (45 + d) = pipeline_time_penalty (45 - d) \<and>
   (s \<le> t \<and> t \<le> 45 \<longrightarrow> pipeline_time_penalty t \<le> pipeline_time_penalty s) \<and>
   (45 \<le> s \<and> s \<le> t \<longrightarrow> pipeline_time_penalty s \<le> pipeline_time_penalty t) \<and>
   \<not> mono pipeline_time_penalty \<and> \<not> antimono pipeline_time_penalty \<and>
   (\<forall>st. sample_features R n g0 = (df, g1) \<and> effect_stages n df = Some st \<longrightarrow>
      (\<forall>i<n. st ! 7 ! i = st ! 6 ! i - pipeline_time_penalty (time_in_pipeline df ! i)))"
proof -
  have f: "pipeline_time_penalty t = 0.05 * (\<bar>real_of_int t - 45\<bar> / 45)" for t
    by (simp add: pipeline_time_penalty_def)
  have sym: "pipeline_time_penalty (45 + d) = pipeline_time_penalty (45 - d)"
    by (simp add: f)
  have dec: "s \<le> t \<and> t \<le> 45 \<longrightarrow> pipeline_time_penalty t \<le> pipeline_time_penalty s"
    by (simp add: f)
  have inc: "45 \<le> s \<and> s \<le> t \<longrightarrow> pipeline_time_penalty s \<le> pipeline_time_penalty t"
    by (simp add: f)
  have v: "pipeline_time_penalty 1 = 22 / 450" "pipeline_time_penalty 45 = 0"
    "pipeline_time_penalty 89 = 22 / 450"
    by (simp_all add: f)
  have nm: "\<not> mono pipeline_time_penalty"
  proof
    assume "mono pipeline_time_penalty"
    then have "pipeline_time_penalty 1 \<le> pipeline_time_penalty 45" by (rule monoD) simp
    with v show False by simp
  qed
  have na: "\<not> antimono pipeline_time_penalty"
  proof
    assume "antimono pipeline_time_penalty"
    then have "pipeline_time_penalty 89 \<le> pipeline_time_penalty 45" by (rule antimonoD) simp
    with v show False by simp
  qed
  have sub: "\<forall>i<n. st ! 7 ! i = st ! 6 ! i - pipeline_time_penalty (time_in_pipeline df ! i)"
    if sf: "sample_features R n g0 = (df, g1)" and st: "effect_stages n df = Some st" for st
  proof -
    have rows: "frame_rows n df" by (rule sample_features_rows [OF sf])
    from st have "conversion_effects n df = Some (last st)" by (simp add: conversion_effects_def)
    from conversion_effects_length [OF rows this] have l7: "length (last st) = n" .
    from st obtain p6 where st7: "st ! 7 = isub p6 (pipeline_time_effect df)" and st6: "st ! 6 = p6"
      and la: "last st = isub p6 (pipeline_time_effect df)"
      by (rule effect_stages_Some) simp
    from l7 la have l6: "n \<le> length p6" by (simp add: isub_length)
    have lt: "length (time_in_pipeline df) = n" using rows by (simp add: frame_rows_def)
    show ?thesis unfolding st7 st6 using l6 lt
      by (simp add: isub_nth pipeline_time_effect_def)
  qed
  from f sym dec inc nm na sub show ?thesis by blast
qed

theorem pipeline_time_penalty_shape_witness:
  "sample_features counter_stream 2 0 = (example_frame, 16) \<and>
   (\<exists>st. effect_stages 2 example_frame = Some st \<and>
      st ! 7 ! 0 = st ! 6 ! 0 - pipeline_time_penalty 11 \<and>
      st ! 7 ! 1 = st ! 6 ! 1 - pipeline_time_penalty 12) \<and>
   (40::int) \<le> 42 \<and> (42::int) \<le> 45 \<and> pipeline_time_penalty 42 \<le> pipeline_time_penalty 40 \<and>
   (45::int) \<le> 50 \<and> (50::int) \<le> 60 \<and> pipeline_time_penalty 50 \<le> pipeline_time_penalty 60"
proof -
  obtain st where st: "effect_stages 2 example_frame = Some st"
    using effect_stages_example by blast
  from pipeline_time_penalty_shape [of 42 0 40 counter_stream 2 0 example_frame 16]
    sample_features_example st
  have a: "\<forall>i<2. st ! 7 ! i = st ! 6 ! i - pipeline_time_penalty (time_in_pipeline example_frame ! i)"
    and b: "pipeline_time_penalty 42 \<le> pipeline_time_penalty 40"
    by simp_all
  from pipeline_time_penalty_shape [of 60 0 50 counter_stream 2 0 example_frame 16]
  have c: "pipeline_time_penalty 50 \<le> pipeline_time_penalty 60"
    by simp
  from a [rule_format, of 0] a [rule_format, of 1]
  have "st ! 7 ! 0 = st ! 6 ! 0 - pipeline_time_penalty 11 \<and>
      st ! 7 ! 1 = st ! 6 ! 1 - pipeline_time_penalty 12"
    by (simp add: example_frame_def)
  with st b c sample_features_example show ?thesis by auto
qed

lemma clipped_probability_fst:
  assumes "frame_rows n df" "draw_n (normal_draw R 0 0.1) n g = (noise, g2)"
  shows "clipped_probability R n df g =
     (map_option (\<lambda>p. np_clip (map2 (+) p noise) 0.01 0.99) (conversion_effects n df), g2)"
proof (cases "conversion_effects n df")
  case None
  then show ?thesis using assms(2) by (simp add: clipped_probability_def)
next
  case (Some p)
  from conversion_effects_length [OF assms(1) Some] have "length p = n" .
  with Some assms(2) show ?thesis by (simp add: clipped_probability_def add_noise_def)
qed

lemma generate_of_draws:
  assumes "stream_draws R n g0 = (df, noise, us)"
  shows "fst (generate R n g0) =
     (map_option (\<lambda>p. frame.extend df \<lparr>converted = label_column us p\<rparr>)
        (map_option (\<lambda>p. np_clip (map2 (+) p noise) 0.01 0.99) (conversion_effects n df)),
      map_option (\<lambda>p. np_clip (map2 (+) p noise) 0.01 0.99) (conversion_effects n df))"
proof -
  obtain df' g1 where sf: "sample_features R n g0 = (df', g1)"
    by (cases "sample_features R n g0")
  obtain noise' g2 where nd: "draw_n (normal_draw R 0 0.1) n g1 = (noise', g2)"
    by (cases "draw_n (normal_draw R 0 0.1) n g1")
  obtain us' g3 where ud: "draw_n (rand_draw R) n g2 = (us', g3)"
    by (cases "draw_n (rand_draw R) n g2")
  from assms sf nd ud have eq: "df' = df" "noise' = noise" "us' = us"
    by (simp_all add: stream_draws_def)
  have rows: "frame_rows n df'" by (rule sample_features_rows [OF sf])
  note cp = clipped_probability_fst [OF rows nd]
  show ?thesis using generate_unfold [OF sf cp ud] eq by simp
qed

text \<open>
  Claim C4, as amended. For a fixed record count the data set is a function of the
  values the shared stream delivers: two runs to which the stream delivers the same
  draws, whatever the streams and their states are, produce the same data set and
  the same clipped probabilities. In particular two runs entered in the same stream
  state agree. The generator never sets the stream state itself.
\<close>

theorem generate_determined_by_draws:
  assumes "stream_draws R n g = stream_draws R' n g'"
  shows "fst (generate R n g) = fst (generate R' n g')"
proof -
  obtain df noise us where d: "stream_draws R n g = (df, noise, us)"
    by (cases "stream_draws R n g") auto
  with assms have d': "stream_draws R' n g' = (df, noise, us)" by simp
  show ?thesis unfolding generate_of_draws [OF d] generate_of_draws [OF d'] ..
qed

lemma stream_draws_example:
  "stream_draws counter_stream 2 0 = (example_frame, [0, 1 / 10], [4 / 5, 9 / 10])"
  by (simp add: stream_draws_def sample_features_example)
     (simp add: draw_n_numeral draw_n_1 counter_stream_def)

lemma stream_draws_shifted:
  "stream_draws shifted_stream 2 10 = (example_frame, [0, 1 / 10], [4 / 5, 9 / 10])"
  by (simp add: stream_draws_def sample_features_def draw_n_numeral draw_n_1 shifted_stream_def
      BUSINESS_TYPES_def PRIORITY_LEVELS_def np_round_def rint_def Let_def example_frame_def)

theorem generate_determined_by_draws_witness:
  "stream_draws counter_stream 2 0 = stream_draws shifted_stream 2 10 \<and>
   fst (generate counter_stream 2 0) = fst (generate shifted_stream 2 10)"
proof -
  have h: "stream_draws counter_stream 2 0 = stream_draws shifted_stream 2 10"
    by (simp add: stream_draws_example stream_draws_shifted)
  from generate_determined_by_draws [OF h] h show ?thesis by blast
qed

text \<open>
  Claim C4 as stated fails: the generator has no seeding step, so the state in which
  a run finds the stream is not fixed by the program; two runs of the same generator
  with the same record count, entered in different stream states, produce different
  data sets.
\<close>

theorem unseeded_runs_differ:
  "fst (generate counter_stream 2 0) \<noteq> fst (generate counter_stream 2 1)"
proof -
  have a: "snd (fst (generate counter_stream 2 0)) = Some [263 / 360, 211 / 300]"
    by (simp add: generate_probability [OF sample_features_example] clipped_probability_example)
  have sf: "sample_features counter_stream 2 1 =
      (\<lparr>business_type = [''Retail'', ''Services''], rating = [9 / 2, 3],
       user_ratings_total = [15, 16], deal_value = [3000, 4000],
       priority = [''Low'', ''Medium''], time_in_pipeline = [12, 13],
       documents_verified_count = [6, 0], contacts_count = [4, 1]\<rparr>, 17)"
    by (simp add: sample_features_def draw_n_numeral draw_n_1 counter_stream_def
      BUSINESS_TYPES_def PRIORITY_LEVELS_def np_round_def rint_def Let_def)
  have es: "conversion_effects 2 \<lparr>business_type = [''Retail'', ''Services''], rating = [9 / 2, 3],
       user_ratings_total = [15, 16], deal_value = [3000, 4000],
       priority = [''Low'', ''Medium''], time_in_pipeline = [12, 13],
       documents_verified_count = [6, 0], contacts_count = [4, 1]\<rparr> = Some [2641 / 4800, 191 / 450]"
    by (simp add: conversion_effects_def effect_stages_def
      deal_value_effect_def review_count_effect_def
      priority_effect_def rating_effect_def document_effect_def business_type_bonus_def
      pipeline_time_effect_def pipeline_time_penalty_def div_by_max_def iadd_def isub_def
      priority_map_def BASE_CONVERSION_RATE_def Let_def eval_nat_numeral)
  have b: "snd (fst (generate counter_stream 2 1)) = Some [3121 / 4800, 73 / 225]"
    unfolding generate_probability [OF sf]
    by (simp add: clipped_probability_def es
      add_noise_def np_clip_def draw_n_numeral draw_n_1 counter_stream_def)
  from a b show ?thesis by auto
qed

section \<open>Properties of the trainer and evaluator\<close>

text \<open>
  Claim C5, as amended. \<open>load_dataset\<close> raises \<open>FileNotFoundError\<close>, with the message
  that tells the caller to run the generator first, exactly when nothing exists at the
  path. When something exists there it returns what the CSV reader returns and raises
  nothing of its own; what the reader raises reaches the caller.
\<close>

theorem load_dataset_contract:
  "(fs path = None \<longrightarrow>
      load_dataset read_csv fs path =
        Inl (FileNotFoundError
          ''Dataset not found. Please run 01_generate_dataset.py before training.'')) \<and>
   ((\<exists>msg. load_dataset read_csv fs path = Inl (FileNotFoundError msg)) \<longleftrightarrow> fs path = None) \<and>
   (\<forall>e df. fs path = Some e \<and> read_csv e = Inr df \<longrightarrow> load_dataset read_csv fs path = Inr df) \<and>
   (\<forall>e msg. fs path = Some e \<and> read_csv e = Inl msg \<longrightarrow>
      load_dataset read_csv fs path = Inl (ReadError msg))"
  by (auto simp: load_dataset_def MISSING_DATASET_MESSAGE_def split: option.splits sum.splits)

theorem load_dataset_contract_witness:
  "Map.empty ''synthetic_sales_leads.csv'' = (None :: entry option) \<and>
   load_dataset example_reader Map.empty ''synthetic_sales_leads.csv'' =
     Inl (FileNotFoundError
       ''Dataset not found. Please run 01_generate_dataset.py before training.'') \<and>
   [''synthetic_sales_leads.csv'' \<mapsto> File ''leads''] ''synthetic_sales_leads.csv'' =
     Some (File ''leads'') \<and>
   example_reader (File ''leads'') = Inr example_table \<and>
   load_dataset example_reader [''synthetic_sales_leads.csv'' \<mapsto> File ''leads'']
     ''synthetic_sales_leads.csv'' = Inr example_table"
proof -
  have a: "Map.empty ''synthetic_sales_leads.csv'' = (None :: entry option)" by simp
  have b: "[''synthetic_sales_leads.csv'' \<mapsto> File ''leads''] ''synthetic_sales_leads.csv'' =
     Some (File ''leads'')" by simp
  have c: "example_reader (File ''leads'') = Inr example_table"
    by (simp add: example_reader_def)
  from load_dataset_contract [of Map.empty "''synthetic_sales_leads.csv''" example_reader] a
  have d: "load_dataset example_reader Map.empty ''synthetic_sales_leads.csv'' =
     Inl (FileNotFoundError
       ''Dataset not found. Please run 01_generate_dataset.py before training.'')"
    by blast
  from load_dataset_contract [of "[''synthetic_sales_leads.csv'' \<mapsto> File ''leads'']"
      "''synthetic_sales_leads.csv''" example_reader] b c
  have e: "load_dataset example_reader [''synthetic_sales_leads.csv'' \<mapsto> File ''leads'']
     ''synthetic_sales_leads.csv'' = Inr example_table"
    by blast
  from a b c d e show ?thesis by blast
qed

text \<open>
  Claim C5 as stated fails where it says that loading succeeds whenever the file
  exists: an empty file exists, the reader refuses it, and \<open>load_dataset\<close> lets that
  error through.
\<close>

theorem load_dataset_existing_file_fails:
  "[''synthetic_sales_leads.csv'' \<mapsto> File []] ''synthetic_sales_leads.csv'' \<noteq> None \<and>
   load_dataset example_reader [''synthetic_sales_leads.csv'' \<mapsto> File []]
     ''synthetic_sales_leads.csv'' =
       Inl (ReadError ''EmptyDataError: No columns to parse from file'')"
  by (simp add: load_dataset_def example_reader_def)



lemma select_columns_total:
  "(\<forall>name\<in>set names. map_of df name \<noteq> None) \<Longrightarrow> \<exists>X. select_columns df names = Inr X"
  by (induction names) (auto split: option.splits sum.splits)

lemma select_columns_nth:
  "select_columns df names = Inr X \<Longrightarrow> (name, c) \<in> set X \<Longrightarrow> map_of df name = Some c"
proof (induction names arbitrary: X)
  case Nil
  then show ?case by simp
next
  case (Cons a names)
  then show ?case by (auto split: option.splits sum.splits)
qed



lemma count_pairs_no_positive_prediction:
  "True \<notin> set y_pred \<Longrightarrow> count_pairs t True y_true y_pred = 0"
  by (auto simp: count_pairs_def filter_empty_conv dest: set_zip_rightD)

lemma count_pairs_no_positive_label:
  "True \<notin> set y_true \<Longrightarrow> count_pairs True p y_true y_pred = 0"
  by (auto simp: count_pairs_def filter_empty_conv dest: set_zip_leftD)

lemma map_result_all2:
  "map_result f xs = Inr ys \<Longrightarrow> list_all2 (\<lambda>x y. f x = Inr y) xs ys"
proof (induction xs arbitrary: ys)
  case Nil
  then show ?case by simp
next
  case (Cons x xs)
  then show ?case by (auto split: sum.splits)
qed

lemma map_result_map:
  "(\<forall>x\<in>set xs. f x = Inr (g x)) \<Longrightarrow> map_result f xs = Inr (map g xs)"
  by (induction xs) auto

lemma column_transformer_fit_Inr:
  assumes "column_transformer_fit ct X = Inr P"
  shows "transformer P = ct"
    and "list_all2 (\<lambda>name np. fit_numeric X name = Inr np) (num_columns ct) (scalers P)"
    and "list_all2 (\<lambda>name nc. fit_categorical X name = Inr nc) (cat_columns ct) (categories P)"
proof -
  from assms obtain sc cats where sc: "map_result (fit_numeric X) (num_columns ct) = Inr sc"
    and cats: "map_result (fit_categorical X) (cat_columns ct) = Inr cats"
    and P: "P = \<lparr>transformer = ct, scalers = sc, categories = cats\<rparr>"
    by (auto simp: column_transformer_fit_def split: sum.splits)
  show "transformer P = ct" by (simp add: P)
  show "list_all2 (\<lambda>name np. fit_numeric X name = Inr np) (num_columns ct) (scalers P)"
    using map_result_all2 [OF sc] by (simp add: P)
  show "list_all2 (\<lambda>name nc. fit_categorical X name = Inr nc) (cat_columns ct) (categories P)"
    using map_result_all2 [OF cats] by (simp add: P)
qed

lemma fit_numeric_Inr:
  assumes "fit_numeric X name = Inr np"
  shows "fst np = name \<and> (\<exists>tr. map_of X name = Some (NumCol tr) \<and> tr \<noteq> [] \<and>
           standard_scaler_fit (NumCol tr) = Inr (snd np))"
proof -
  from assms obtain c p where c: "map_of X name = Some c"
    and p: "standard_scaler_fit c = Inr p" and np: "np = (name, p)"
    by (auto simp: fit_numeric_def split: option.splits sum.splits)
  from p obtain tr where "c = NumCol tr" "tr \<noteq> []"
    by (cases c) (auto simp: standard_scaler_fit_def split: if_splits)
  with c p np show ?thesis by auto
qed

lemma one_hot_fit_Inr:
  assumes "one_hot_fit c = Inr cats"
  shows "cells c \<noteq> [] \<and> set cats = set (cells c) \<and> distinct cats \<and>
         length cats = card (set (cells c))"
proof (cases c)
  case (NumCol xs)
  with assms have xs: "xs \<noteq> []" and cats: "cats = map Num (sort (remdups xs))"
    by (auto simp: one_hot_fit_def split: if_splits)
  have d: "distinct cats" unfolding cats by (simp add: distinct_map inj_on_def)
  have s: "set cats = set (cells c)" unfolding cats NumCol by simp
  from d have "length cats = card (set cats)" by (simp add: distinct_card)
  with xs d s NumCol show ?thesis by simp
next
  case (StrCol ss)
  with assms have ss: "ss \<noteq> []" and cats: "cats = map Str (sort (remdups ss))"
    by (auto simp: one_hot_fit_def split: if_splits)
  have d: "distinct cats" unfolding cats by (simp add: distinct_map inj_on_def)
  have s: "set cats = set (cells c)" unfolding cats StrCol by simp
  from d have "length cats = card (set cats)" by (simp add: distinct_card)
  with ss d s StrCol show ?thesis by simp
qed

lemma fit_categorical_Inr:
  assumes "fit_categorical X name = Inr nc"
  shows "fst nc = name \<and> (\<exists>tc. map_of X name = Some tc \<and> one_hot_fit tc = Inr (snd nc))"
  using assms by (auto simp: fit_categorical_def split: option.splits sum.splits)

lemma list_all2_fst:
  assumes "list_all2 Q xs ys" "\<And>x y. Q x y \<Longrightarrow> fst y = x"
  shows "map fst ys = xs"
  using assms by (induction rule: list_all2_induct) auto

lemma list_all2_rightD:
  assumes "list_all2 Q xs ys" "y \<in> set ys"
  shows "\<exists>x\<in>set xs. Q x y"
  using assms by (induction rule: list_all2_induct) auto

lemma fitted_preprocessor_facts:
  assumes "column_transformer_fit build_preprocessor X = Inr P"
  shows "transformer P = build_preprocessor"
    and "map fst (scalers P) = NUMERIC_FEATURES"
    and "map fst (categories P) = CATEGORICAL_FEATURES"
    and "\<And>np. np \<in> set (scalers P) \<Longrightarrow>
           \<exists>tr. map_of X (fst np) = Some (NumCol tr) \<and> tr \<noteq> [] \<and>
                standard_scaler_fit (NumCol tr) = Inr (snd np)"
    and "\<And>nc. nc \<in> set (categories P) \<Longrightarrow>
           \<exists>tc. map_of X (fst nc) = Some tc \<and> one_hot_fit tc = Inr (snd nc)"
proof -
  note f = column_transformer_fit_Inr [OF assms]
  show "transformer P = build_preprocessor" by (rule f(1))
  have n: "list_all2 (\<lambda>name np. fit_numeric X name = Inr np) NUMERIC_FEATURES (scalers P)"
    using f(2) by (simp add: build_preprocessor_def)
  have c: "list_all2 (\<lambda>name nc. fit_categorical X name = Inr nc) CATEGORICAL_FEATURES (categories P)"
    using f(3) by (simp add: build_preprocessor_def)
  show "map fst (scalers P) = NUMERIC_FEATURES"
    using n by (rule list_all2_fst) (simp add: fit_numeric_Inr)
  show "map fst (categories P) = CATEGORICAL_FEATURES"
    using c by (rule list_all2_fst) (simp add: fit_categorical_Inr)
  show "\<exists>tr. map_of X (fst np) = Some (NumCol tr) \<and> tr \<noteq> [] \<and>
                standard_scaler_fit (NumCol tr) = Inr (snd np)" if "np \<in> set (scalers P)" for np
  proof -
    from list_all2_rightD [OF n that] obtain name where "fit_numeric X name = Inr np"
      by blast
    from fit_numeric_Inr [OF this] show ?thesis by blast
  qed
  show "\<exists>tc. map_of X (fst nc) = Some tc \<and> one_hot_fit tc = Inr (snd nc)"
    if "nc \<in> set (categories P)" for nc
  proof -
    from list_all2_rightD [OF c that] obtain name where "fit_categorical X name = Inr nc"
      by blast
    from fit_categorical_Inr [OF this] show ?thesis by blast
  qed
qed

lemma has_feature_columns_numeric:
  assumes "has_feature_columns X" "name \<in> set NUMERIC_FEATURES"
  obtains xs where "map_of X name = Some (NumCol xs)" "xs \<noteq> []"
proof -
  from assms have "case map_of X name of Some (NumCol xs) \<Rightarrow> xs \<noteq> [] | _ \<Rightarrow> False"
    by (simp add: has_feature_columns_def list_all_iff)
  then show ?thesis using that
    by (cases "map_of X name"; cases "the (map_of X name)") auto
qed

lemma has_feature_columns_categorical:
  assumes "has_feature_columns X" "name \<in> set CATEGORICAL_FEATURES"
  obtains c where "map_of X name = Some c" "cells c \<noteq> []"
proof -
  from assms have "case map_of X name of Some c \<Rightarrow> cells c \<noteq> [] | None \<Rightarrow> False"
    by (simp add: has_feature_columns_def list_all_iff)
  then show ?thesis using that by (cases "map_of X name") auto
qed

lemma transform_numeric_ok:
  assumes "map_of X (fst np) = Some (NumCol xs)" "xs \<noteq> []"
  shows "transform_numeric X np =
     Inr [(Scaled (fst np), map (\<lambda>x. (x - mean_fit (snd np)) / scale_fit (snd np)) xs)]"
  using assms by (simp add: transform_numeric_def standard_scaler_transform_def)

lemma transform_categorical_ignore:
  assumes "handle_unknown enc = Ignore" "map_of X (fst nc) = Some c" "cells c \<noteq> []"
  shows "transform_categorical enc X nc =
     Inr (map (\<lambda>cat. (Indicator (fst nc) cat, map (\<lambda>v. if v = cat then 1 else 0) (cells c)))
            (snd nc))"
  using assms by (simp add: transform_categorical_def one_hot_transform_def)

lemma transform_explicit:
  assumes fit: "column_transformer_fit build_preprocessor X_train = Inr P"
    and test: "has_feature_columns X_test"
  shows "column_transformer_transform P X_test =
     Inr (concat (map (scaled_columns X_test) (scalers P)) @
          concat (map (indicator_columns X_test) (categories P)))"
proof -
  note f = fitted_preprocessor_facts [OF fit]
  have enc: "handle_unknown (cat_encoder (transformer P)) = Ignore"
    by (simp add: f(1) build_preprocessor_def build_one_hot_encoder_def)
  have n: "\<forall>np\<in>set (scalers P). transform_numeric X_test np = Inr (scaled_columns X_test np)"
  proof
    fix np assume "np \<in> set (scalers P)"
    then have "fst np \<in> set NUMERIC_FEATURES" using f(2) by (metis image_eqI set_map)
    with test obtain xs where xs: "map_of X_test (fst np) = Some (NumCol xs)" "xs \<noteq> []"
      by (rule has_feature_columns_numeric)
    from transform_numeric_ok [OF xs] xs(1)
    show "transform_numeric X_test np = Inr (scaled_columns X_test np)"
      by (simp add: scaled_columns_def)
  qed
  have c: "\<forall>nc\<in>set (categories P).
      transform_categorical (cat_encoder (transformer P)) X_test nc =
        Inr (indicator_columns X_test nc)"
  proof
    fix nc assume "nc \<in> set (categories P)"
    then have "fst nc \<in> set CATEGORICAL_FEATURES" using f(3) by (metis image_eqI set_map)
    with test obtain c where c: "map_of X_test (fst nc) = Some c" "cells c \<noteq> []"
      by (rule has_feature_columns_categorical)
    from transform_categorical_ignore [OF enc c] c(1)
    show "transform_categorical (cat_encoder (transformer P)) X_test nc =
        Inr (indicator_columns X_test nc)"
      by (simp add: indicator_columns_def)
  qed
  show ?thesis
    unfolding column_transformer_transform_def
    by (simp add: map_result_map [OF n] map_result_map [OF c])
qed

lemma map_concat_map:
  "(\<forall>x\<in>set xs. map f (g x) = k x) \<Longrightarrow> map f (concat (map g xs)) = concat (map k xs)"
  by (induction xs) auto

lemma concat_map_singleton: "concat (map (\<lambda>x. [h x]) xs) = map h xs"
  by (induction xs) auto

lemma transform_names:
  assumes fit: "column_transformer_fit build_preprocessor X_train = Inr P"
    and test: "has_feature_columns X_test"
  shows "map fst (concat (map (scaled_columns X_test) (scalers P)) @
          concat (map (indicator_columns X_test) (categories P))) = get_feature_names_out P"
proof -
  note f = fitted_preprocessor_facts [OF fit]
  have n: "map fst (scaled_columns X_test np) = [Scaled (fst np)]" if "np \<in> set (scalers P)" for np
  proof -
    from that have "fst np \<in> set NUMERIC_FEATURES" using f(2) by (metis image_eqI set_map)
    with test obtain xs where "map_of X_test (fst np) = Some (NumCol xs)"
      by (rule has_feature_columns_numeric)
    then show ?thesis by (simp add: scaled_columns_def)
  qed
  have c: "map fst (indicator_columns X_test nc) = map (Indicator (fst nc)) (snd nc)"
    if "nc \<in> set (categories P)" for nc
  proof -
    from that have "fst nc \<in> set CATEGORICAL_FEATURES" using f(3) by (metis image_eqI set_map)
    with test obtain c where "map_of X_test (fst nc) = Some c"
      by (rule has_feature_columns_categorical)
    then show ?thesis by (simp add: indicator_columns_def comp_def)
  qed
  have n': "map fst (concat (map (scaled_columns X_test) (scalers P))) =
      map (\<lambda>np. Scaled (fst np)) (scalers P)"
    using map_concat_map [of "scalers P" fst "scaled_columns X_test" "\<lambda>np. [Scaled (fst np)]"] n
    by (simp add: concat_map_singleton)
  have c': "map fst (concat (map (indicator_columns X_test) (categories P))) =
      concat (map (\<lambda>nc. map (Indicator (fst nc)) (snd nc)) (categories P))"
    using map_concat_map [of "categories P" fst "indicator_columns X_test"
        "\<lambda>nc. map (Indicator (fst nc)) (snd nc)"] c
    by simp
  show ?thesis by (simp add: get_feature_names_out_def n' c')
qed

lemma one_hot_transform_raises:
  assumes "v \<in> set vs" "v \<notin> set cats"
  shows "one_hot_transform \<lparr>handle_unknown = RaiseOnUnknown, sparse_output = s\<rparr> cats vs =
     Inl (ValueError ''Found unknown categories'')"
proof -
  from assms have "\<not> list_all (\<lambda>v. v \<in> set cats) vs" by (auto simp: list_all_iff)
  moreover from assms(1) have "vs \<noteq> []" by auto
  ultimately show ?thesis by (simp add: one_hot_transform_def)
qed

lemma standard_scaler_fit_ok: "xs \<noteq> [] \<Longrightarrow> \<exists>p. standard_scaler_fit (NumCol xs) = Inr p"
  by (simp add: standard_scaler_fit_def Let_def)

lemma one_hot_fit_ok: "cells c \<noteq> [] \<Longrightarrow> \<exists>cats. one_hot_fit c = Inr cats"
  by (cases c) (simp_all add: one_hot_fit_def)

lemma map_result_total:
  "(\<forall>x\<in>set xs. \<exists>y. f x = Inr y) \<Longrightarrow> \<exists>ys. map_result f xs = Inr ys"
  by (induction xs) auto

lemma fit_succeeds:
  assumes "has_feature_columns X"
  shows "\<exists>P. column_transformer_fit build_preprocessor X = Inr P"
proof -
  have n: "\<forall>name\<in>set NUMERIC_FEATURES. \<exists>np. fit_numeric X name = Inr np"
  proof
    fix name assume "name \<in> set NUMERIC_FEATURES"
    with assms obtain xs where xs: "map_of X name = Some (NumCol xs)" "xs \<noteq> []"
      by (rule has_feature_columns_numeric)
    from standard_scaler_fit_ok [OF xs(2)] obtain p where "standard_scaler_fit (NumCol xs) = Inr p" ..
    with xs show "\<exists>np. fit_numeric X name = Inr np" by (simp add: fit_numeric_def)
  qed
  have c: "\<forall>name\<in>set CATEGORICAL_FEATURES. \<exists>nc. fit_categorical X name = Inr nc"
  proof
    fix name assume "name \<in> set CATEGORICAL_FEATURES"
    with assms obtain c where c: "map_of X name = Some c" "cells c \<noteq> []"
      by (rule has_feature_columns_categorical)
    from one_hot_fit_ok [OF c(2)] obtain cats where "one_hot_fit c = Inr cats" ..
    with c show "\<exists>nc. fit_categorical X name = Inr nc" by (simp add: fit_categorical_def)
  qed
  from map_result_total [OF n] obtain sc where
    sc: "map_result (fit_numeric X) NUMERIC_FEATURES = Inr sc" ..
  from map_result_total [OF c] obtain cats where
    cats: "map_result (fit_categorical X) CATEGORICAL_FEATURES = Inr cats" ..
  show ?thesis
    by (simp add: column_transformer_fit_def build_preprocessor_def sc cats)
qed

lemma indicator_member:
  assumes "(Indicator name cat, col) \<in> set (indicator_columns X nc)"
  shows "fst nc = name \<and> cat \<in> set (snd nc) \<and>
         (\<exists>c. map_of X name = Some c \<and> col = map (\<lambda>v. if v = cat then 1 else 0) (cells c))"
proof (cases "map_of X (fst nc)")
  case None
  with assms show ?thesis by (simp add: indicator_columns_def)
next
  case (Some c)
  with assms show ?thesis by (auto simp: indicator_columns_def)
qed

lemma scaled_member:
  assumes "(Scaled name, col) \<in> set (scaled_columns X np)"
  shows "fst np = name \<and>
         (\<exists>xs. map_of X name = Some (NumCol xs) \<and>
            col = map (\<lambda>x. (x - mean_fit (snd np)) / scale_fit (snd np)) xs)"
proof (cases "map_of X (fst np)")
  case None
  with assms show ?thesis by (simp add: scaled_columns_def)
next
  case (Some c)
  with assms show ?thesis by (cases c) (auto simp: scaled_columns_def)
qed

lemma no_indicator_in_scaled: "(Indicator name cat, col) \<notin> set (scaled_columns X np)"
  by (auto simp: scaled_columns_def split: option.splits column.splits)

lemma no_scaled_in_indicator: "(Scaled name, col) \<notin> set (indicator_columns X nc)"
  by (auto simp: indicator_columns_def split: option.splits)

text \<open>
  Claim C7. Let the preprocessor of \<open>build_preprocessor\<close> be fitted on a training
  table, and let a test table hold the eight feature columns with at least one row.
  Then the transform does not fail, whatever categories the test table holds. Its
  columns are those of \<open>get_feature_names_out\<close>. Every indicator column belongs to a
  category of the training column and marks the rows that hold it, so a row whose
  value was not seen in training is zero in every indicator column of that feature.
  Every scaled column is computed with the mean and scale that were fitted on the
  training column alone and are stored in the fitted preprocessor.
\<close>

theorem unseen_category_ignored:
  assumes "column_transformer_fit build_preprocessor X_train = Inr P"
    and "has_feature_columns X_test"
  shows "\<exists>M. column_transformer_transform P X_test = Inr M \<and>
     map fst M = get_feature_names_out P \<and>
     (\<forall>name cat col. (Indicator name cat, col) \<in> set M \<longrightarrow>
        (\<exists>c tc. map_of X_test name = Some c \<and> map_of X_train name = Some tc \<and>
           cat \<in> set (cells tc) \<and> col = map (\<lambda>v. if v = cat then 1 else 0) (cells c))) \<and>
     (\<forall>name cat col c tc i. (Indicator name cat, col) \<in> set M \<and>
        map_of X_test name = Some c \<and> map_of X_train name = Some tc \<and>
        i < length (cells c) \<and> cells c ! i \<notin> set (cells tc) \<longrightarrow> col ! i = 0) \<and>
     (\<forall>name tc cat. name \<in> set CATEGORICAL_FEATURES \<and> map_of X_train name = Some tc \<and>
        cat \<in> set (cells tc) \<longrightarrow> (\<exists>col. (Indicator name cat, col) \<in> set M)) \<and>
     (\<forall>name col. (Scaled name, col) \<in> set M \<longrightarrow>
        (\<exists>xs tr p. map_of X_test name = Some (NumCol xs) \<and>
           map_of X_train name = Some (NumCol tr) \<and> tr \<noteq> [] \<and>
           standard_scaler_fit (NumCol tr) = Inr p \<and> (name, p) \<in> set (scalers P) \<and>
           col = map (\<lambda>x. (x - mean_fit p) / scale_fit p) xs))"
proof -
  note f = fitted_preprocessor_facts [OF assms(1)]
  define M where "M = concat (map (scaled_columns X_test) (scalers P)) @
          concat (map (indicator_columns X_test) (categories P))"
  have t: "column_transformer_transform P X_test = Inr M"
    unfolding M_def by (rule transform_explicit [OF assms])
  have n: "map fst M = get_feature_names_out P"
    unfolding M_def by (rule transform_names [OF assms])
  have ind: "\<exists>c tc. map_of X_test name = Some c \<and> map_of X_train name = Some tc \<and>
           cat \<in> set (cells tc) \<and> col = map (\<lambda>v. if v = cat then 1 else 0) (cells c)"
    if "(Indicator name cat, col) \<in> set M" for name cat col
  proof -
    from that obtain nc where nc: "nc \<in> set (categories P)"
      and m: "(Indicator name cat, col) \<in> set (indicator_columns X_test nc)"
      by (auto simp: M_def no_indicator_in_scaled)
    from indicator_member [OF m] obtain c where nm: "fst nc = name" and cat: "cat \<in> set (snd nc)"
      and c: "map_of X_test name = Some c" "col = map (\<lambda>v. if v = cat then 1 else 0) (cells c)"
      by blast
    from f(5) [OF nc] nm obtain tc where tc: "map_of X_train name = Some tc"
      and oh: "one_hot_fit tc = Inr (snd nc)" by auto
    from one_hot_fit_Inr [OF oh] cat have "cat \<in> set (cells tc)" by simp
    with c tc show ?thesis by blast
  qed
  have zero: "col ! i = 0"
    if "(Indicator name cat, col) \<in> set M" "map_of X_test name = Some c"
      "map_of X_train name = Some tc" "i < length (cells c)" "cells c ! i \<notin> set (cells tc)"
    for name cat col c tc i
  proof -
    from ind [OF that(1)] that(2,3) have cat: "cat \<in> set (cells tc)"
      and col: "col = map (\<lambda>v. if v = cat then 1 else 0) (cells c)" by auto
    from cat that(5) have "cells c ! i \<noteq> cat" by auto
    with that(4) show ?thesis by (simp add: col)
  qed
  have ex: "\<exists>col. (Indicator name cat, col) \<in> set M"
    if "name \<in> set CATEGORICAL_FEATURES" "map_of X_train name = Some tc" "cat \<in> set (cells tc)"
    for name tc cat
  proof -
    from that(1) f(3) obtain nc where nc: "nc \<in> set (categories P)" and nm: "fst nc = name"
      by (metis (no_types, lifting) imageE set_map)
    from f(5) [OF nc] nm that(2) have oh: "one_hot_fit tc = Inr (snd nc)" by auto
    from one_hot_fit_Inr [OF oh] that(3) have cat: "cat \<in> set (snd nc)" by simp
    from assms(2) that(1) obtain c where c: "map_of X_test name = Some c"
      by (rule has_feature_columns_categorical)
    have "(Indicator name cat, map (\<lambda>v. if v = cat then 1 else 0) (cells c))
            \<in> set (indicator_columns X_test nc)"
      using cat c nm by (auto simp: indicator_columns_def)
    with nc show ?thesis unfolding M_def by auto
  qed
  have sc: "\<exists>xs tr p. map_of X_test name = Some (NumCol xs) \<and>
           map_of X_train name = Some (NumCol tr) \<and> tr \<noteq> [] \<and>
           standard_scaler_fit (NumCol tr) = Inr p \<and> (name, p) \<in> set (scalers P) \<and>
           col = map (\<lambda>x. (x - mean_fit p) / scale_fit p) xs"
    if "(Scaled name, col) \<in> set M" for name col
  proof -
    from that obtain np where np: "np \<in> set (scalers P)"
      and m: "(Scaled name, col) \<in> set (scaled_columns X_test np)"
      by (auto simp: M_def no_scaled_in_indicator)
    from scaled_member [OF m] obtain xs where nm: "fst np = name"
      and xs: "map_of X_test name = Some (NumCol xs)"
        "col = map (\<lambda>x. (x - mean_fit (snd np)) / scale_fit (snd np)) xs"
      by blast
    from f(4) [OF np] nm obtain tr where tr: "map_of X_train name = Some (NumCol tr)" "tr \<noteq> []"
      "standard_scaler_fit (NumCol tr) = Inr (snd np)" by auto
    from np nm have "(name, snd np) \<in> set (scalers P)" by (metis prod.collapse)
    with xs tr show ?thesis by blast
  qed
  from t n ind zero ex sc show ?thesis by blast
qed

lemma has_feature_columns_example_train: "has_feature_columns example_train"
  by (simp add: has_feature_columns_def example_train_def NUMERIC_FEATURES_def
      CATEGORICAL_FEATURES_def)

lemma has_feature_columns_example_test: "has_feature_columns example_test"
  by (simp add: has_feature_columns_def example_test_def NUMERIC_FEATURES_def
      CATEGORICAL_FEATURES_def)

theorem unseen_category_ignored_witness:
  "has_feature_columns example_test \<and>
   (\<exists>P M. column_transformer_fit build_preprocessor example_train = Inr P \<and>
      column_transformer_transform P example_test = Inr M \<and>
      map fst M = get_feature_names_out P \<and>
      (Indicator ''business_type'' (Str ''Retail''), [0]) \<in> set M \<and>
      (Indicator ''priority'' (Str ''Low''), [0]) \<in> set M \<and>
      (Indicator ''priority'' (Str ''Medium''), [0]) \<in> set M)"
proof -
  note he = has_feature_columns_example_test
  from fit_succeeds [OF has_feature_columns_example_train] obtain P where
    P: "column_transformer_fit build_preprocessor example_train = Inr P" ..
  from unseen_category_ignored [OF P he] obtain M where
    t: "column_transformer_transform P example_test = Inr M"
    and n: "map fst M = get_feature_names_out P"
    and ind: "\<And>name cat col. (Indicator name cat, col) \<in> set M \<Longrightarrow>
        \<exists>c tc. map_of example_test name = Some c \<and> map_of example_train name = Some tc \<and>
           cat \<in> set (cells tc) \<and> col = map (\<lambda>v. if v = cat then 1 else 0) (cells c)"
    and ex: "\<And>name tc cat. name \<in> set CATEGORICAL_FEATURES \<Longrightarrow>
        map_of example_train name = Some tc \<Longrightarrow> cat \<in> set (cells tc) \<Longrightarrow>
        \<exists>col. (Indicator name cat, col) \<in> set M"
    by blast
  have bt: "map_of example_train ''business_type'' = Some (StrCol [''Retail'', ''Retail''])"
    and pr: "map_of example_train ''priority'' = Some (StrCol [''Low'', ''Medium''])"
    by (simp_all add: example_train_def)
  have bt': "map_of example_test ''business_type'' = Some (StrCol [''Restaurant''])"
    and pr': "map_of example_test ''priority'' = Some (StrCol [''High''])"
    by (simp_all add: example_test_def)
  have a: "(Indicator ''business_type'' (Str ''Retail''), [0]) \<in> set M"
  proof -
    from ex [OF _ bt, of "Str ''Retail''"] obtain col where
      c: "(Indicator ''business_type'' (Str ''Retail''), col) \<in> set M"
      by (auto simp: CATEGORICAL_FEATURES_def)
    from ind [OF c] bt' have "col = [0]" by auto
    with c show ?thesis by simp
  qed
  have b: "(Indicator ''priority'' (Str ''Low''), [0]) \<in> set M"
  proof -
    from ex [OF _ pr, of "Str ''Low''"] obtain col where
      c: "(Indicator ''priority'' (Str ''Low''), col) \<in> set M"
      by (auto simp: CATEGORICAL_FEATURES_def)
    from ind [OF c] pr' have "col = [0]" by auto
    with c show ?thesis by simp
  qed
  have c: "(Indicator ''priority'' (Str ''Medium''), [0]) \<in> set M"
  proof -
    from ex [OF _ pr, of "Str ''Medium''"] obtain col where
      c: "(Indicator ''priority'' (Str ''Medium''), col) \<in> set M"
      by (auto simp: CATEGORICAL_FEATURES_def)
    from ind [OF c] pr' have "col = [0]" by auto
    with c show ?thesis by simp
  qed
  from he P t n a b c show ?thesis by blast
qed

lemma categories_shape:
  assumes "column_transformer_fit build_preprocessor X = Inr P"
  obtains c1 c2 bt pr where "categories P = [(''business_type'', c1), (''priority'', c2)]"
    "map_of X ''business_type'' = Some bt" "one_hot_fit bt = Inr c1"
    "map_of X ''priority'' = Some pr" "one_hot_fit pr = Inr c2"
proof -
  note f = fitted_preprocessor_facts [OF assms]
  from f(3) have "map fst (categories P) = [''business_type'', ''priority'']"
    by (simp add: CATEGORICAL_FEATURES_def)
  then obtain c1 c2 where c: "categories P = [(''business_type'', c1), (''priority'', c2)]"
    by (auto simp: map_eq_Cons_conv)
  from f(5) [of "(''business_type'', c1)"] c obtain bt where
    bt: "map_of X ''business_type'' = Some bt" "one_hot_fit bt = Inr c1" by auto
  from f(5) [of "(''priority'', c2)"] c obtain pr where
    pr: "map_of X ''priority'' = Some pr" "one_hot_fit pr = Inr c2" by auto
  from c bt pr that show ?thesis by blast
qed

lemma feature_names_count:
  assumes "column_transformer_fit build_preprocessor X = Inr P"
  shows "\<exists>bt pr. map_of X ''business_type'' = Some bt \<and> map_of X ''priority'' = Some pr \<and>
     length (get_feature_names_out P) =
       length NUMERIC_FEATURES + (card (set (cells bt)) + card (set (cells pr))) \<and>
     distinct (get_feature_names_out P)"
proof -
  note f = fitted_preprocessor_facts [OF assms]
  from assms obtain c1 c2 bt pr where c: "categories P = [(''business_type'', c1), (''priority'', c2)]"
    and bt: "map_of X ''business_type'' = Some bt" "one_hot_fit bt = Inr c1"
    and pr: "map_of X ''priority'' = Some pr" "one_hot_fit pr = Inr c2"
    by (rule categories_shape)
  note o1 = one_hot_fit_Inr [OF bt(2)] and o2 = one_hot_fit_Inr [OF pr(2)]
  have ls: "length (scalers P) = length NUMERIC_FEATURES"
    using f(2) by (metis length_map)
  have names: "get_feature_names_out P =
      map Scaled NUMERIC_FEATURES @ map (Indicator ''business_type'') c1 @
      map (Indicator ''priority'') c2"
  proof -
    have "map (\<lambda>np. Scaled (fst np)) (scalers P) = map Scaled (map fst (scalers P))"
      by simp
    then show ?thesis by (simp add: get_feature_names_out_def c f(2))
  qed
  have len: "length (get_feature_names_out P) =
       length NUMERIC_FEATURES + (card (set (cells bt)) + card (set (cells pr)))"
    unfolding names using o1 o2 by simp
  have dn: "distinct NUMERIC_FEATURES" by (simp add: NUMERIC_FEATURES_def)
  have d: "distinct (get_feature_names_out P)"
    unfolding names using o1 o2 dn by (auto simp: distinct_map inj_on_def)
  from bt(1) pr(1) len d show ?thesis by blast
qed

text \<open>
  Claim C9. Let the preprocessor be fitted on the training table and let the
  classifier report one importance per column of the transformed training data.
  Then \<open>plot_feature_importance\<close> returns a table with exactly one row for each encoded
  feature: its rows are the pairs of feature name and importance, each feature once;
  their number is the number of numeric features plus the numbers of distinct
  categories of the two categorical training columns; and the importances do not
  rise from one row to the next.
\<close>

theorem feature_importance_rows:
  assumes "column_transformer_fit build_preprocessor X_train = Inr P"
    and "length imps = length (get_feature_names_out P)"
  shows "\<exists>T bt pr.
      plot_feature_importance \<lparr>preprocessor = P, feature_importances = imps\<rparr> = Inr T \<and>
      map_of X_train ''business_type'' = Some bt \<and> map_of X_train ''priority'' = Some pr \<and>
      length T = length NUMERIC_FEATURES + (card (set (cells bt)) + card (set (cells pr))) \<and>
      mset T = mset (zip (get_feature_names_out P) imps) \<and>
      mset (map fst T) = mset (get_feature_names_out P) \<and>
      distinct (map fst T) \<and>
      sorted_wrt (\<lambda>a b. snd b \<le> snd a) T"
proof -
  define names where "names = get_feature_names_out P"
  define T where "T = sort_values_descending (zip names imps)"
  have p: "plot_feature_importance \<lparr>preprocessor = P, feature_importances = imps\<rparr> = Inr T"
    using assms(2) by (simp add: plot_feature_importance_def Let_def T_def names_def)
  from feature_names_count [OF assms(1)] obtain bt pr where
    bt: "map_of X_train ''business_type'' = Some bt" and pr: "map_of X_train ''priority'' = Some pr"
    and len: "length names =
       length NUMERIC_FEATURES + (card (set (cells bt)) + card (set (cells pr)))"
    and d: "distinct names"
    unfolding names_def by blast
  have m: "mset T = mset (zip names imps)"
    by (simp add: T_def sort_values_descending_def)
  have l: "length T = length names"
    using assms(2) by (simp add: T_def sort_values_descending_def names_def)
  have "mset (map fst T) = image_mset fst (mset (zip names imps))"
    using m by (metis mset_map)
  also have "\<dots> = mset (map fst (zip names imps))" by simp
  also have "\<dots> = mset names" using assms(2) by (simp add: names_def)
  finally have mn: "mset (map fst T) = mset names" .
  from mn d have dT: "distinct (map fst T)" by (metis mset_eq_imp_distinct_iff)
  have "sorted (map (\<lambda>r. - snd r) T)"
    by (simp add: T_def sort_values_descending_def)
  then have s: "sorted_wrt (\<lambda>a b. snd b \<le> snd a) T"
    by (simp add: sorted_map)
  from p bt pr l len m mn dT s show ?thesis unfolding names_def by auto
qed

theorem feature_importance_rows_witness:
  "\<exists>P T. column_transformer_fit build_preprocessor example_train = Inr P \<and>
      length [5, 0, 7, 2, 2, 9, 1, 4, 3 :: int] = length (get_feature_names_out P) \<and>
      plot_feature_importance
        \<lparr>preprocessor = P, feature_importances = [5, 0, 7, 2, 2, 9, 1, 4, 3]\<rparr> = Inr T \<and>
      length T = 9 \<and> distinct (map fst T) \<and> sorted_wrt (\<lambda>a b. snd b \<le> snd a) T"
proof -
  from fit_succeeds [OF has_feature_columns_example_train] obtain P where
    P: "column_transformer_fit build_preprocessor example_train = Inr P" ..
  have bt: "map_of example_train ''business_type'' = Some (StrCol [''Retail'', ''Retail''])"
    and pr: "map_of example_train ''priority'' = Some (StrCol [''Low'', ''Medium''])"
    by (simp_all add: example_train_def)
  from feature_names_count [OF P] bt pr
  have n: "length (get_feature_names_out P) = 9"
    by (auto simp: NUMERIC_FEATURES_def)
  then have h: "length [5, 0, 7, 2, 2, 9, 1, 4, 3 :: int] = length (get_feature_names_out P)"
    by simp
  from feature_importance_rows [OF P h] bt pr obtain T where
    "plot_feature_importance
        \<lparr>preprocessor = P, feature_importances = [5, 0, 7, 2, 2, 9, 1, 4, 3]\<rparr> = Inr T"
    "length T = 9" "distinct (map fst T)" "sorted_wrt (\<lambda>a b. snd b \<le> snd a) T"
    by (auto simp: NUMERIC_FEATURES_def)
  with P h show ?thesis by blast
qed

lemma roc_auc_score_both_classes:
  "True \<in> set y_true \<Longrightarrow> False \<in> set y_true \<Longrightarrow>
     \<exists>a. roc_auc_score policy y_true y_score = Inr (Score a)"
  by (auto simp: roc_auc_score_def Let_def)

lemma roc_auc_score_single_class:
  assumes "y_true \<noteq> []" "\<not> (True \<in> set y_true \<and> False \<in> set y_true)"
  shows "roc_auc_score RaiseValueError y_true y_score =
           Inl (ValueError
             ''Only one class present in y_true. ROC AUC score is not defined in that case.'')"
    and "roc_auc_score ReturnNaN y_true y_score = Inr NaN"
  using assms by (auto simp: roc_auc_score_def)

lemma roc_auc_score_Inr:
  assumes "roc_auc_score policy y_true y_score = Inr auc"
  shows "y_true \<noteq> [] \<and>
     (if True \<in> set y_true \<and> False \<in> set y_true then \<exists>a. auc = Score a
      else policy = ReturnNaN \<and> auc = NaN)"
proof (cases "True \<in> set y_true \<and> False \<in> set y_true")
  case True
  then obtain a where "roc_auc_score policy y_true y_score = Inr (Score a)"
    using roc_auc_score_both_classes [of y_true policy y_score] by blast
  with assms have "auc = Score a" by simp
  moreover from True have "y_true \<noteq> []" by auto
  ultimately show ?thesis using True by simp
next
  case False
  with assms show ?thesis
    by (cases policy; cases "y_true = []") (auto simp: roc_auc_score_def)
qed

lemma evaluate_model_Inr:
  assumes "evaluate_model policy m X y = Inr (mt, y_prob)"
  obtains y_pred proba auc where "predict m X = Inr y_pred" "predict_proba m X = Inr proba"
    "1 < length proba" "y_prob = proba ! 1" "length y_pred = length y"
    "length y_prob = length y" "roc_auc_score policy y y_prob = Inr auc"
    "mt = \<lparr>accuracy = accuracy_score y y_pred,
           precision = precision_score y y_pred 0,
           recall = recall_score y y_pred 0,
           f1 = f1_score y y_pred 0,
           roc_auc = auc\<rparr>"
proof -
  from assms obtain y_pred where p: "predict m X = Inr y_pred"
    by (cases "predict m X") (auto simp: evaluate_model_def)
  from assms p obtain proba where q: "predict_proba m X = Inr proba"
    by (cases "predict_proba m X") (auto simp: evaluate_model_def)
  from assms p q have l: "1 < length proba"
    by (auto simp: evaluate_model_def split: if_splits)
  from assms p q l have c: "length y_pred = length y" "length (proba ! 1) = length y"
    by (auto simp: evaluate_model_def Let_def split: if_splits)
  from assms p q l c obtain auc where a: "roc_auc_score policy y (proba ! 1) = Inr auc"
    by (cases "roc_auc_score policy y (proba ! 1)") (auto simp: evaluate_model_def Let_def)
  from assms p q l c a have "y_prob = proba ! 1"
    "mt = \<lparr>accuracy = accuracy_score y y_pred,
           precision = precision_score y y_pred 0,
           recall = recall_score y y_pred 0,
           f1 = f1_score y y_pred 0,
           roc_auc = auc\<rparr>"
    by (auto simp: evaluate_model_def Let_def)
  with p q l c a that show ?thesis by blast
qed

lemma evaluate_model_returns:
  assumes "predict m X = Inr y_pred" "predict_proba m X = Inr proba" "1 < length proba"
    "length y_pred = length y" "length (proba ! 1) = length y"
    "roc_auc_score policy y (proba ! 1) = Inr auc"
  shows "evaluate_model policy m X y =
     Inr (\<lparr>accuracy = accuracy_score y y_pred,
           precision = precision_score y y_pred 0,
           recall = recall_score y y_pred 0,
           f1 = f1_score y y_pred 0,
           roc_auc = auc\<rparr>, proba ! 1)"
  using assms by (simp add: evaluate_model_def Let_def)

lemma evaluate_model_one_class_classifier:
  assumes "predict m X = Inr y_pred" "predict_proba m X = Inr proba" "length proba \<le> 1"
  shows "evaluate_model policy m X y =
           Inl (IndexError ''index 1 is out of bounds for axis 1 with size 1'')"
  using assms by (simp add: evaluate_model_def)

text \<open>
  Claim C6, as amended. In every metrics record that \<open>evaluate_model\<close> returns,
  precision, recall and F1 are the values computed with \<open>zero_division=0\<close>: each is
  zero where its ratio has denominator zero (no positive prediction for precision, no
  positive label for recall, neither for F1), and no error arises from them. ROC-AUC
  is a number exactly on a test partition with both classes. On a non-empty
  single-class partition it is undefined and never replaced by zero: under the
  raising release the error of \<open>roc_auc_score\<close> leaves \<open>evaluate_model\<close> and no record
  is returned, under the other the record is returned with NaN as its ROC-AUC.
\<close>

theorem zero_division_metrics:
  "(\<forall>mt y_prob. evaluate_model policy m X y_test = Inr (mt, y_prob) \<longrightarrow>
      (\<exists>y_pred proba.
         predict m X = Inr y_pred \<and> predict_proba m X = Inr proba \<and> 1 < length proba \<and>
         y_prob = proba ! 1 \<and> y_test \<noteq> [] \<and>
         precision mt = precision_score y_test y_pred 0 \<and>
         recall mt = recall_score y_test y_pred 0 \<and>
         f1 mt = f1_score y_test y_pred 0 \<and>
         accuracy mt = accuracy_score y_test y_pred \<and>
         (True \<notin> set y_pred \<longrightarrow> precision mt = 0 \<and> f1 mt = 0) \<and>
         (True \<notin> set y_test \<longrightarrow> recall mt = 0 \<and> f1 mt = 0) \<and>
         (if True \<in> set y_test \<and> False \<in> set y_test then \<exists>a. roc_auc mt = Score a
          else policy = ReturnNaN \<and> roc_auc mt = NaN))) \<and>
   (\<forall>y_pred proba.
      predict m X = Inr y_pred \<and> predict_proba m X = Inr proba \<and> 1 < length proba \<and>
      length y_pred = length y_test \<and> length (proba ! 1) = length y_test \<and> y_test \<noteq> [] \<longrightarrow>
      (True \<in> set y_test \<and> False \<in> set y_test \<or> policy = ReturnNaN \<longrightarrow>
         (\<exists>mt. evaluate_model policy m X y_test = Inr (mt, proba ! 1))) \<and>
      (\<not> (True \<in> set y_test \<and> False \<in> set y_test) \<and> policy = RaiseValueError \<longrightarrow>
         evaluate_model policy m X y_test =
           Inl (ValueError
             ''Only one class present in y_true. ROC AUC score is not defined in that case.'')))"
proof -
  have a: "\<exists>y_pred proba.
         predict m X = Inr y_pred \<and> predict_proba m X = Inr proba \<and> 1 < length proba \<and>
         y_prob = proba ! 1 \<and> y_test \<noteq> [] \<and>
         precision mt = precision_score y_test y_pred 0 \<and>
         recall mt = recall_score y_test y_pred 0 \<and>
         f1 mt = f1_score y_test y_pred 0 \<and>
         accuracy mt = accuracy_score y_test y_pred \<and>
         (True \<notin> set y_pred \<longrightarrow> precision mt = 0 \<and> f1 mt = 0) \<and>
         (True \<notin> set y_test \<longrightarrow> recall mt = 0 \<and> f1 mt = 0) \<and>
         (if True \<in> set y_test \<and> False \<in> set y_test then \<exists>a. roc_auc mt = Score a
          else policy = ReturnNaN \<and> roc_auc mt = NaN)"
    if "evaluate_model policy m X y_test = Inr (mt, y_prob)" for mt y_prob
  proof -
    from that obtain y_pred proba auc where e: "predict m X = Inr y_pred"
      "predict_proba m X = Inr proba" "1 < length proba" "y_prob = proba ! 1"
      and r: "roc_auc_score policy y_test y_prob = Inr auc"
      and mt: "mt = \<lparr>accuracy = accuracy_score y_test y_pred,
           precision = precision_score y_test y_pred 0,
           recall = recall_score y_test y_pred 0,
           f1 = f1_score y_test y_pred 0,
           roc_auc = auc\<rparr>"
      by (rule evaluate_model_Inr)
    note ra = roc_auc_score_Inr [OF r]
    have p: "True \<notin> set y_pred \<longrightarrow> precision mt = 0 \<and> f1 mt = 0"
      by (simp add: mt precision_score_def f1_score_def Let_def
          count_pairs_no_positive_prediction)
    have q: "True \<notin> set y_test \<longrightarrow> recall mt = 0 \<and> f1 mt = 0"
      by (simp add: mt recall_score_def f1_score_def Let_def count_pairs_no_positive_label)
    have s: "if True \<in> set y_test \<and> False \<in> set y_test then \<exists>a. roc_auc mt = Score a
          else policy = ReturnNaN \<and> roc_auc mt = NaN"
      using ra by (simp add: mt)
    have v: "precision mt = precision_score y_test y_pred 0 \<and>
         recall mt = recall_score y_test y_pred 0 \<and>
         f1 mt = f1_score y_test y_pred 0 \<and>
         accuracy mt = accuracy_score y_test y_pred"
      by (simp add: mt)
    from e ra p q s v show ?thesis by blast
  qed
  have b: "(True \<in> set y_test \<and> False \<in> set y_test \<or> policy = ReturnNaN \<longrightarrow>
         (\<exists>mt. evaluate_model policy m X y_test = Inr (mt, proba ! 1))) \<and>
      (\<not> (True \<in> set y_test \<and> False \<in> set y_test) \<and> policy = RaiseValueError \<longrightarrow>
         evaluate_model policy m X y_test =
           Inl (ValueError
             ''Only one class present in y_true. ROC AUC score is not defined in that case.''))"
    if h: "predict m X = Inr y_pred" "predict_proba m X = Inr proba" "1 < length proba"
      "length y_pred = length y_test" "length (proba ! 1) = length y_test" "y_test \<noteq> []"
    for y_pred proba
  proof -
    have r1: "\<exists>mt. evaluate_model policy m X y_test = Inr (mt, proba ! 1)"
      if "True \<in> set y_test \<and> False \<in> set y_test \<or> policy = ReturnNaN"
    proof -
      have "\<exists>auc. roc_auc_score policy y_test (proba ! 1) = Inr auc"
      proof (cases "True \<in> set y_test \<and> False \<in> set y_test")
        case True
        then show ?thesis using roc_auc_score_both_classes [of y_test policy "proba ! 1"] by blast
      next
        case False
        with that have "policy = ReturnNaN" by blast
        with False h(6) show ?thesis by (simp add: roc_auc_score_single_class(2))
      qed
      then obtain auc where "roc_auc_score policy y_test (proba ! 1) = Inr auc" ..
      from evaluate_model_returns [OF h(1-5) this] show ?thesis by blast
    qed
    have r2: "evaluate_model policy m X y_test =
           Inl (ValueError
             ''Only one class present in y_true. ROC AUC score is not defined in that case.'')"
      if "\<not> (True \<in> set y_test \<and> False \<in> set y_test) \<and> policy = RaiseValueError"
      using that h roc_auc_score_single_class(1) [of y_test "proba ! 1"]
      by (simp add: evaluate_model_def Let_def)
    from r1 r2 show ?thesis by blast
  qed
  from a b show ?thesis by blast
qed

theorem zero_division_metrics_witness:
  "evaluate_model ReturnNaN never_model () [False, False, False] =
     Inr (\<lparr>accuracy = 1, precision = 0, recall = 0, f1 = 0, roc_auc = NaN\<rparr>,
          [1 / 10, 2 / 10, 3 / 10]) \<and>
   (\<exists>mt a. evaluate_model RaiseValueError never_model () [True, False, False] =
       Inr (mt, [1 / 10, 2 / 10, 3 / 10]) \<and>
     precision mt = 0 \<and> f1 mt = 0 \<and> roc_auc mt = Score a)"
proof -
  have p: "predict never_model () = Inr [False, False, False]"
    and q: "predict_proba never_model () =
      Inr [[9 / 10, 8 / 10, 7 / 10], [1 / 10, 2 / 10, 3 / 10]]"
    by (simp_all add: never_model_def)
  note t1 = zero_division_metrics [of ReturnNaN never_model "()" "[False, False, False]"]
  note t2 = zero_division_metrics [of RaiseValueError never_model "()" "[True, False, False]"]
  from t1 p q obtain mt1 where
    e1: "evaluate_model ReturnNaN never_model () [False, False, False] =
          Inr (mt1, [1 / 10, 2 / 10, 3 / 10])"
    by fastforce
  with t1 p have "precision mt1 = 0 \<and> recall mt1 = 0 \<and> f1 mt1 = 0 \<and> roc_auc mt1 = NaN \<and>
      accuracy mt1 = accuracy_score [False, False, False] [False, False, False]"
    by fastforce
  then have "mt1 = \<lparr>accuracy = 1, precision = 0, recall = 0, f1 = 0, roc_auc = NaN\<rparr>"
    by (cases mt1) (simp add: accuracy_score_def)
  with e1 have a: "evaluate_model ReturnNaN never_model () [False, False, False] =
     Inr (\<lparr>accuracy = 1, precision = 0, recall = 0, f1 = 0, roc_auc = NaN\<rparr>,
          [1 / 10, 2 / 10, 3 / 10])" by simp
  from t2 p q obtain mt2 where
    e2: "evaluate_model RaiseValueError never_model () [True, False, False] =
          Inr (mt2, [1 / 10, 2 / 10, 3 / 10])"
    by fastforce
  with t2 p have "precision mt2 = 0 \<and> f1 mt2 = 0 \<and> (\<exists>a. roc_auc mt2 = Score a)"
    by fastforce
  with a e2 show ?thesis by blast
qed

text \<open>
  Claim C6 as stated fails for ROC-AUC. On a test partition with a single class the
  score is undefined and no zero is substituted: under the raising release the error
  of \<open>roc_auc_score\<close> leaves \<open>evaluate_model\<close>, under the other the entry is NaN.
\<close>

theorem single_class_roc_auc_not_zero:
  "evaluate_model RaiseValueError never_model () [False, False, False] =
     Inl (ValueError
       ''Only one class present in y_true. ROC AUC score is not defined in that case.'') \<and>
   evaluate_model ReturnNaN never_model () [False, False, False] =
     Inr (\<lparr>accuracy = 1, precision = 0, recall = 0, f1 = 0, roc_auc = NaN\<rparr>,
          [1 / 10, 2 / 10, 3 / 10]) \<and>
   NaN \<noteq> Score 0"
  by (simp add: evaluate_model_def roc_auc_score_def never_model_def Let_def
      accuracy_score_def precision_score_def recall_score_def f1_score_def count_pairs_def)

lemma one_class_model_index_error:
  "evaluate_model policy one_class_model () [True, False, False] =
     Inl (IndexError ''index 1 is out of bounds for axis 1 with size 1'')"
  by (simp add: evaluate_model_def one_class_model_def)



















end
